theory Spec2Isabelle
  imports Complex_Main
begin

section \<open>Errors raised by the platform code\<close>

text \<open>
  Every exception of the Python sources is a value. \<open>ValueError\<close> carries the formatted
  message; a failing \<open>assert\<close> statement is \<open>AssertionError\<close> and carries no message.
\<close>

datatype error =
    AssertionError
  | ValueError string
  | NotImplementedError
  | IndexError
  | TypeError
  | AttributeError
  | UnboundLocalError
  | ZeroDivisionError
  | OverflowError
  | ResourceError

section \<open>Resource builders (torii/platform/resources/interface.py)\<close>

subsection \<open>The declaration API the builders call\<close>

text \<open>
  \<open>str.split()\<close> without arguments: the words of a string, separated by runs of ASCII
  white space.
\<close>

definition is_space :: "char \<Rightarrow> bool" where
  "is_space c = (c \<in> set [CHR '' '', CHR 0x09, CHR 0x0A, CHR 0x0B, CHR 0x0C, CHR 0x0D])"

fun split_acc :: "string \<Rightarrow> string \<Rightarrow> string list" where
  "split_acc cur [] = (if cur = [] then [] else [cur])"
| "split_acc cur (c # cs) =
     (if is_space c
      then (if cur = [] then split_acc [] cs else cur # split_acc [] cs)
      else split_acc (cur @ [c]) cs)"

definition str_split :: "string \<Rightarrow> string list" where
  "str_split s = split_acc [] s"

datatype conn = ConnName string | ConnPair string int

record pins =
  pins_names :: "string list"
  pins_dir :: string
  pins_invert :: bool
  pins_conn :: "conn option"

text \<open>
  Modelled from the spec: the \<open>Pins\<close> constructor of the declaration API (build/dsl.py) is
  not among the sources. The spec's data model says that "a Resource's sub-signal
  pin-string count must match its declared bit width": the pin string is split into
  names, and a declared \<open>assert_width\<close> that differs from their count is an assertion
  failure. \<open>PinsN\<close> is \<open>Pins\<close> with the inversion flag set.
\<close>

definition Pins :: "string \<Rightarrow> string \<Rightarrow> conn option \<Rightarrow> nat option \<Rightarrow> error + pins" where
  "Pins ns d c assert_width =
     (case assert_width of
        Some w \<Rightarrow>
          if length (str_split ns) \<noteq> w then Inl AssertionError
          else Inr \<lparr>pins_names = str_split ns, pins_dir = d, pins_invert = False, pins_conn = c\<rparr>
      | None \<Rightarrow> Inr \<lparr>pins_names = str_split ns, pins_dir = d, pins_invert = False, pins_conn = c\<rparr>)"

definition PinsN :: "string \<Rightarrow> string \<Rightarrow> conn option \<Rightarrow> nat option \<Rightarrow> error + pins" where
  "PinsN ns d c assert_width =
     (case Pins ns d c assert_width of
        Inl e \<Rightarrow> Inl e
      | Inr p \<Rightarrow> Inr (p\<lparr>pins_invert := True\<rparr>))"

type_synonym attrs = "string \<rightharpoonup> string"

text \<open>An entry of a resource's io list: a named sub-signal, or the attribute set.\<close>

datatype io_entry = Subsignal string pins | Attrs attrs

datatype resource_arg = ArgName string | ArgNumber int

text \<open>
  \<open>Resource(name, number, *ios)\<close> and the class method
  \<open>Resource.family(*args, default_name = ..., ios = ...)\<close>; the latter's body is outside the
  sources, so the call is kept with its arguments.
\<close>

datatype resource =
    Resource string int "io_entry list"
  | Resource_family "resource_arg list" string "io_entry list"

fun ios :: "resource \<Rightarrow> io_entry list" where
  "ios (Resource n k es) = es"
| "ios (Resource_family as n es) = es"

fun subsignal_name :: "io_entry \<Rightarrow> string option" where
  "subsignal_name (Subsignal n p) = Some n"
| "subsignal_name (Attrs a) = None"

fun subsignal_dir :: "io_entry \<Rightarrow> string option" where
  "subsignal_dir (Subsignal n p) = Some (pins_dir p)"
| "subsignal_dir (Attrs a) = None"

fun subsignal_invert :: "io_entry \<Rightarrow> bool option" where
  "subsignal_invert (Subsignal n p) = Some (pins_invert p)"
| "subsignal_invert (Attrs a) = None"

text \<open>
  \<open>io.append(Subsignal(name, Pins(...)))\<close>: the \<open>Pins\<close> call may raise; otherwise the entry
  is appended. \<open>append_opt\<close> is the same statement under \<open>if line is not None\<close>.
\<close>

definition append_subsignal ::
  "string \<Rightarrow> error + pins \<Rightarrow> io_entry list \<Rightarrow> error + io_entry list" where
  "append_subsignal n ps io =
     (case ps of Inl e \<Rightarrow> Inl e | Inr p \<Rightarrow> Inr (io @ [Subsignal n p]))"

definition append_attrs :: "attrs option \<Rightarrow> io_entry list \<Rightarrow> io_entry list" where
  "append_attrs a io = (case a of None \<Rightarrow> io | Some x \<Rightarrow> io @ [Attrs x])"

definition then_io ::
  "error + io_entry list \<Rightarrow> (io_entry list \<Rightarrow> error + io_entry list) \<Rightarrow> error + io_entry list" where
  "then_io r f = (case r of Inl e \<Rightarrow> Inl e | Inr io \<Rightarrow> f io)"

subsection \<open>UARTResource\<close>

definition UARTResource ::
  "resource_arg list \<Rightarrow> string \<Rightarrow> string \<Rightarrow> string option \<Rightarrow> string option \<Rightarrow>
   string option \<Rightarrow> string option \<Rightarrow> string option \<Rightarrow> string option \<Rightarrow>
   conn option \<Rightarrow> attrs option \<Rightarrow> string option \<Rightarrow> error + resource" where
  "UARTResource args rx tx rts cts dtr dsr dcd ri c a role =
     (if (\<exists>line \<in> set [rts, cts, dtr, dsr, dcd, ri]. line \<noteq> None)
         \<and> role \<notin> set [Some ''dce'', Some ''dte'']
      then Inl AssertionError
      else
        let dce_to_dte = (if role = Some ''dte'' then ''i'' else ''o'');
            dte_to_dce = (if role = Some ''dte'' then ''o'' else ''i'');
            opt = (\<lambda>n line d io.
                     case line of None \<Rightarrow> Inr io
                     | Some s \<Rightarrow> append_subsignal n (Pins s d c (Some 1)) io)
        in
          case
            then_io (then_io (then_io (then_io (then_io (then_io (then_io
              (append_subsignal ''rx'' (Pins rx ''i'' c (Some 1)) [])
              (append_subsignal ''tx'' (Pins tx ''o'' c (Some 1))))
              (opt ''rts'' rts dte_to_dce))
              (opt ''cts'' cts dce_to_dte))
              (opt ''dtr'' dtr dte_to_dce))
              (opt ''dsr'' dsr dce_to_dte))
              (opt ''dcd'' dcd dce_to_dte))
              (opt ''ri'' ri dce_to_dte)
          of
            Inl e \<Rightarrow> Inl e
          | Inr io \<Rightarrow> Inr (Resource_family args ''uart'' (append_attrs a io)))"

subsection \<open>IrDAResource\<close>

definition IrDAResource ::
  "int \<Rightarrow> string \<Rightarrow> string \<Rightarrow> string option \<Rightarrow> string option \<Rightarrow>
   conn option \<Rightarrow> attrs option \<Rightarrow> error + resource" where
  "IrDAResource number rx tx en sd c a =
     (if \<not> ((en \<noteq> None) \<noteq> (sd \<noteq> None)) then Inl AssertionError
      else
        case
          then_io (then_io (then_io
            (append_subsignal ''rx'' (Pins rx ''i'' c (Some 1)) [])
            (append_subsignal ''tx'' (Pins tx ''o'' c (Some 1))))
            (\<lambda>io. case en of None \<Rightarrow> Inr io
                  | Some s \<Rightarrow> append_subsignal ''en'' (Pins s ''o'' c (Some 1)) io))
            (\<lambda>io. case sd of None \<Rightarrow> Inr io
                  | Some s \<Rightarrow> append_subsignal ''en'' (PinsN s ''o'' c (Some 1)) io)
        of
          Inl e \<Rightarrow> Inl e
        | Inr io \<Rightarrow> Inr (Resource ''irda'' number (append_attrs a io)))"

section \<open>The hardware description interface the platforms build on\<close>

text \<open>
  The circuit builder (signals, expressions, primitive instances, modules) belongs to the
  hardware description core, which is outside the sources. The platform code only
  constructs its objects, so they are modelled as data: a signal is identified by its
  name and carries its width, an expression is the syntax tree the Python operators
  build, and a module is what has been added to it so far.
\<close>

datatype signal = Signal nat string

fun signal_width :: "signal \<Rightarrow> nat" where
  "signal_width (Signal w n) = w"

fun signal_name :: "signal \<Rightarrow> string" where
  "signal_name (Signal w n) = n"

text \<open>\<open>Signal.like(other, name_suffix = s)\<close>: a new signal of the same shape.\<close>

fun Signal_like :: "signal \<Rightarrow> string \<Rightarrow> signal" where
  "Signal_like (Signal w n) s = Signal w (n @ s)"

datatype hdl_expr =
    Sig signal
  | Const nat
  | Not hdl_expr
  | Replicate hdl_expr nat
  | Slice hdl_expr nat
  | Equals hdl_expr hdl_expr
  | ClockSignal string

text \<open>\<open>bits_for(n)\<close> for a non-negative \<open>n\<close>: the bits needed to hold it, at least one.\<close>

fun bits_for :: "nat \<Rightarrow> nat" where
  "bits_for n = (if n < 2 then 1 else 1 + bits_for (n div 2))"

declare bits_for.simps [simp del]

fun len :: "hdl_expr \<Rightarrow> nat" where
  "len (Sig s) = signal_width s"
| "len (Const c) = bits_for c"
| "len (Not v) = len v"
| "len (Replicate v n) = len v * n"
| "len (Slice v b) = 1"
| "len (Equals v w) = 1"
| "len (ClockSignal d) = 1"

text \<open>\<open>v[b]\<close> raises \<open>IndexError\<close> out of range; on \<open>None\<close> it is a \<open>TypeError\<close>.\<close>

definition index :: "hdl_expr \<Rightarrow> nat \<Rightarrow> error + hdl_expr" where
  "index v b = (if b < len v then Inr (Slice v b) else Inl IndexError)"

definition index_opt :: "hdl_expr option \<Rightarrow> nat \<Rightarrow> error + hdl_expr" where
  "index_opt v b = (case v of None \<Rightarrow> Inl TypeError | Some x \<Rightarrow> index x b)"

text \<open>
  An argument of \<open>Instance(type, ...)\<close>: a connection (\<open>i_\<close>, \<open>o_\<close>, \<open>io_\<close> keywords) or a
  parameter (\<open>p_\<close> keywords).
\<close>

datatype inst_arg = Conn hdl_expr | ParamStr string | ParamInt int

datatype prim_instance = Instance string "(string \<times> inst_arg) list"


fun prim_args :: "prim_instance \<Rightarrow> (string \<times> inst_arg) list" where
  "prim_args (Instance t as) = as"

datatype clock_domain = ClockDomain string bool

text \<open>
  A statement of a module: the assignment \<open>lhs.eq(rhs)\<close>, or statements under
  \<open>with m.If(cond):\<close>.
\<close>

datatype statement = Assign hdl_expr hdl_expr | If_stmt hdl_expr "statement list"

text \<open>
  A module under construction: the submodules added (anonymous by \<open>m.submodules += ...\<close>,
  named by \<open>m.submodules[name] = ...\<close>), the statements added to \<open>m.d.comb\<close>, and the
  clock domains. \<open>signals\<close> is the list of the \<open>Signal\<close>
  objects allocated while building, in order: Python allocates them on the heap, the
  model keeps them with the builder so that their number can be stated. An entry is
  \<open>New s\<close> for \<open>s = Signal(...)\<close> and \<open>Like z s\<close> for \<open>s = Signal.like(z, ...)\<close>.
\<close>

datatype alloc = New signal | Like signal signal

record module =
  submodules :: "(string option \<times> prim_instance) list"
  comb :: "statement list"
  domains :: "clock_domain list"
  signals :: "alloc list"

definition Module :: module where
  "Module = \<lparr>submodules = [], comb = [], domains = [], signals = []\<rparr>"

definition new_signal :: "signal \<Rightarrow> module \<Rightarrow> module" where
  "new_signal s m = m\<lparr>signals := signals m @ [New s]\<rparr>"

text \<open>
  The keyword arguments of an \<open>Instance(...)\<close> call are evaluated left to right; the first
  one that raises aborts the call.
\<close>

fun eval_args :: "(string \<times> (error + hdl_expr)) list \<Rightarrow> error + (string \<times> inst_arg) list" where
  "eval_args [] = Inr []"
| "eval_args ((k, a) # rest) =
     (case a of
        Inl e \<Rightarrow> Inl e
      | Inr v \<Rightarrow> (case eval_args rest of Inl e \<Rightarrow> Inl e | Inr vs \<Rightarrow> Inr ((k, Conn v) # vs)))"

definition add_submodule ::
  "string option \<Rightarrow> string \<Rightarrow> (string \<times> (error + hdl_expr)) list \<Rightarrow> module \<Rightarrow> error + module" where
  "add_submodule nm t as m =
     (case eval_args as of
        Inl e \<Rightarrow> Inl e
      | Inr vs \<Rightarrow> Inr (m\<lparr>submodules := submodules m @ [(nm, Instance t vs)]\<rparr>))"

text \<open>\<open>for bit in range(n): body\<close>, stopping at the first exception.\<close>

primrec for_each :: "nat list \<Rightarrow> (nat \<Rightarrow> module \<Rightarrow> error + module) \<Rightarrow> module \<Rightarrow> error + module" where
  "for_each [] body m = Inr m"
| "for_each (b # bs) body m =
     (case body b m of Inl e \<Rightarrow> Inl e | Inr m' \<Rightarrow> for_each bs body m')"

definition for_range :: "nat \<Rightarrow> (nat \<Rightarrow> module \<Rightarrow> error + module) \<Rightarrow> module \<Rightarrow> error + module" where
  "for_range n body m = for_each [0..<n] body m"

text \<open>\<open>str(n)\<close> for a non-negative integer, as the f-strings format it.\<close>

definition digit :: "nat \<Rightarrow> char" where
  "digit d = char_of (48 + d)"

fun str_nat :: "nat \<Rightarrow> string" where
  "str_nat n = (if n < 10 then [digit n] else str_nat (n div 10) @ [digit (n mod 10)])"

declare str_nat.simps [simp del]

text \<open>
  A pin as the core hands it to the platform (lib/io.py, outside the sources): name,
  direction (\<open>i\<close>, \<open>o\<close>, \<open>oe\<close> or \<open>io\<close>), width, gearing \<open>xdr\<close>, and the signals the platform
  reads from it: \<open>i\<close>/\<open>o\<close> at gearing 0 and 1, the streams \<open>i0\<close>.. and \<open>o0\<close>.. above, the
  output enable and the clocks.
\<close>

record pin =
  pin_name :: string
  pin_dir :: string
  pin_width :: nat
  pin_xdr :: nat
  pin_i :: signal
  pin_i0 :: signal
  pin_i1 :: signal
  pin_i2 :: signal
  pin_i3 :: signal
  pin_i4 :: signal
  pin_i5 :: signal
  pin_i6 :: signal
  pin_o :: signal
  pin_o0 :: signal
  pin_o1 :: signal
  pin_o2 :: signal
  pin_o3 :: signal
  pin_o4 :: signal
  pin_o5 :: signal
  pin_o6 :: signal
  pin_oe :: signal
  pin_i_clk :: signal
  pin_i_fclk :: signal
  pin_o_clk :: signal
  pin_o_fclk :: signal

text \<open>
  A port record: a single-ended port has the field \<open>io\<close>, a differential one the fields
  \<open>p\<close> and \<open>n\<close>; reading a field the port does not have is an \<open>AttributeError\<close>. The
  length of the record is the sum of its fields' widths.
\<close>

datatype port = SingleEnded hdl_expr | Differential hdl_expr hdl_expr




definition index_res :: "error + hdl_expr \<Rightarrow> nat \<Rightarrow> error + hdl_expr" where
  "index_res r b = (case r of Inl e \<Rightarrow> Inl e | Inr v \<Rightarrow> index v b)"

section \<open>The ECP5 platform (torii/platform/vendor/lattice/ecp5.py)\<close>

subsection \<open>Toolchain selection\<close>

text \<open>
  The attributes of a platform object that the methods below read. \<open>None\<close> stands for
  Python's \<open>None\<close> in \<open>toolchain\<close>, \<open>default_clk\<close> and \<open>default_rst\<close>, and for an attribute
  that is not there in \<open>oscg_div\<close>. The class body sets \<open>toolchain = None\<close>; a board
  class may override the class attributes.
\<close>

datatype pyobj = PyInt int | PyBool bool | PyNone

record ecp5_platform =
  toolchain :: "string option"
  default_clk :: "string option"
  default_rst :: "string option"
  oscg_div :: "pyobj option"

definition ECP5Platform :: ecp5_platform where
  "ECP5Platform = \<lparr>toolchain = None, default_clk = None, default_rst = None, oscg_div = None\<rparr>"

text \<open>\<open>str(x)\<close> of an optional string inside an f-string.\<close>

definition str_opt :: "string option \<Rightarrow> string" where
  "str_opt x = (case x of None \<Rightarrow> ''None'' | Some s \<Rightarrow> s)"

definition unknown_toolchain :: "string option \<Rightarrow> error" where
  "unknown_toolchain t =
     ValueError (''Unknown toolchain '' @ [CHR 0x27] @ str_opt t @ [CHR 0x27]
                 @ '', must be either '' @ [CHR 0x27] @ ''Trellis'' @ [CHR 0x27]
                 @ '', or '' @ [CHR 0x27] @ ''Diamond'' @ [CHR 0x27])"

text \<open>
  \<open>__init__(self, *, toolchain = 'Trellis')\<close>: \<open>self\<close> is the object as its class made it;
  the base class initialiser does not touch \<open>toolchain\<close>. The check reads
  \<open>self.toolchain\<close>, and the argument is stored afterwards.
\<close>

definition ECP5Platform_init :: "ecp5_platform \<Rightarrow> string \<Rightarrow> error + ecp5_platform" where
  "ECP5Platform_init self tc =
     (if toolchain self \<notin> set [Some ''Trellis'', Some ''Diamond'']
      then Inl (unknown_toolchain (toolchain self))
      else Inr (self\<lparr>toolchain := Some tc\<rparr>))"

definition trellis_required_tools :: "string list" where
  "trellis_required_tools = [''yosys'', ''nextpnr-ecp5'', ''ecppack'']"

definition diamond_required_tools :: "string list" where
  "diamond_required_tools = [''pnmainc'', ''ddtcmd'']"

text \<open>
  The template tables are long literal texts; a property returns one of the class's
  tables, named here by the attribute that holds it.
\<close>

datatype template_table =
    trellis_file_templates
  | diamond_file_templates
  | trellis_command_templates
  | diamond_command_templates

definition required_tools :: "ecp5_platform \<Rightarrow> error + string list" where
  "required_tools self =
     (if toolchain self \<notin> set [Some ''Trellis'', Some ''Diamond'']
      then Inl (unknown_toolchain (toolchain self))
      else if toolchain self = Some ''Trellis'' then Inr trellis_required_tools
      else Inr diamond_required_tools)"

definition file_templates :: "ecp5_platform \<Rightarrow> error + template_table" where
  "file_templates self =
     (if toolchain self \<notin> set [Some ''Trellis'', Some ''Diamond'']
      then Inl (unknown_toolchain (toolchain self))
      else if toolchain self = Some ''Trellis'' then Inr trellis_file_templates
      else Inr diamond_file_templates)"

definition command_templates :: "ecp5_platform \<Rightarrow> error + template_table" where
  "command_templates self =
     (if toolchain self \<notin> set [Some ''Trellis'', Some ''Diamond'']
      then Inl (unknown_toolchain (toolchain self))
      else if toolchain self = Some ''Trellis'' then Inr trellis_command_templates
      else Inr diamond_command_templates)"

subsection \<open>The internal oscillator\<close>















subsection \<open>Differential ports\<close>

definition ECP5_differential_io_types :: "string list" where
  "ECP5_differential_io_types =
     [''BLVDS25'', ''BLVDS25E'', ''HSUL12D'', ''LVCMOS18D'', ''LVCMOS25D'', ''LVCMOS33D'',
      ''LVDS'', ''LVDS25E'', ''LVPECL33'', ''LVPECL33E'', ''LVTTL33D'', ''MLVDS'', ''MLVDS25E'',
      ''SLVS'', ''SSTL135D_I'', ''SSTL135D_II'', ''SSTL15D_I'', ''SSTL15D_II'', ''SSTL18D_I'',
      ''SSTL18D_II'', ''SUBLVDS'']"

text \<open>\<open>attrs.get(key, default)\<close>.\<close>

definition attrs_get :: "attrs \<Rightarrow> string \<Rightarrow> string \<Rightarrow> string" where
  "attrs_get a k d = (case a k of None \<Rightarrow> d | Some v \<Rightarrow> v)"

definition ECP5_should_skip_port_component :: "'port \<Rightarrow> attrs \<Rightarrow> string \<Rightarrow> bool" where
  "ECP5_should_skip_port_component port a component =
     (if attrs_get a ''IO_TYPE'' ''LVCMOS25'' \<in> set ECP5_differential_io_types
         \<and> component = ''n''
      then True else False)"

section \<open>The MachXO2/MachXO3L platform (amaranth/vendor/lattice\_machxo\_2\_3l.py)\<close>

definition MachXO_differential_io_types :: "string list" where
  "MachXO_differential_io_types =
     [''LVDS25'', ''LVDS25E'', ''RSDS25'', ''RSDS25E'', ''BLVDS25'', ''BLVDS25E'', ''MLVDS25'',
      ''MLVDS25E'', ''LVPECL33'', ''LVPECL33E'', ''SSTL25D_I'', ''SSTL25D_II'', ''SSTL18D_I'',
      ''SSTL18D_II'', ''HSTL18D_I'', ''HSTL18D_II'', ''LVTTL33D'', ''LVCMOS33D'', ''LVCMOS25D'',
      ''LVCMOS18D'', ''LVCMOS15D'', ''LVCMOS12D'', ''MIPI'']"

definition MachXO_should_skip_port_component :: "'port \<Rightarrow> attrs \<Rightarrow> string \<Rightarrow> bool" where
  "MachXO_should_skip_port_component port a component =
     (if attrs_get a ''IO_TYPE'' ''LVCMOS25'' \<in> set MachXO_differential_io_types
         \<and> component = ''n''
      then True else False)"

section \<open>I/O buffers\<close>

subsection \<open>Helpers the two platforms share\<close>

text \<open>
  The nested helpers \<open>get_ineg\<close>, \<open>get_oneg\<close>, \<open>get_ireg\<close> and \<open>get_oreg\<close> read the same
  in both platform files; they act on the module \<open>m\<close> of the enclosing call, which the
  model passes and returns.
\<close>

definition get_ineg :: "signal \<Rightarrow> bool \<Rightarrow> module \<Rightarrow> signal \<times> module" where
  "get_ineg z invert m =
     (if invert then
        let a = Signal_like z ''_n'' in
        (a, m\<lparr>signals := signals m @ [Like z a],
               comb := comb m @ [Assign (Sig z) (Not (Sig a))]\<rparr>)
      else (z, m))"

definition get_oneg :: "signal \<Rightarrow> bool \<Rightarrow> module \<Rightarrow> signal \<times> module" where
  "get_oneg a invert m =
     (if invert then
        let z = Signal_like a ''_n'' in
        (z, m\<lparr>signals := signals m @ [Like a z],
               comb := comb m @ [Assign (Sig z) (Not (Sig a))]\<rparr>)
      else (a, m))"

text \<open>
  The statements \<open>pin_i0 = get_ineg(pin.i0, i_invert)\<close>, \<open>pin_i1 = ...\<close> in a row: the
  helper applied to each stream in order; the result lists the local variables bound.
\<close>

fun neg_each ::
  "(signal \<Rightarrow> bool \<Rightarrow> module \<Rightarrow> signal \<times> module) \<Rightarrow> signal list \<Rightarrow> bool \<Rightarrow> module
   \<Rightarrow> signal list \<times> module" where
  "neg_each f [] invert m = ([], m)"
| "neg_each f (z # zs) invert m =
     (case f z invert m of (a, m1) \<Rightarrow>
        (case neg_each f zs invert m1 of (as, m2) \<Rightarrow> (a # as, m2)))"

definition if_then :: "bool \<Rightarrow> (module \<Rightarrow> error + module) \<Rightarrow> module \<Rightarrow> error + module" where
  "if_then c f m = (if c then f m else Inr m)"

definition then_m :: "error + module \<Rightarrow> (module \<Rightarrow> error + module) \<Rightarrow> error + module" where
  "then_m r f = (case r of Inl e \<Rightarrow> Inl e | Inr m \<Rightarrow> f m)"

definition get_ireg :: "hdl_expr \<Rightarrow> hdl_expr \<Rightarrow> hdl_expr \<Rightarrow> module \<Rightarrow> error + module" where
  "get_ireg clk d q m =
     for_range (len q) (\<lambda>b. add_submodule None ''IFS1P3DX''
       [(''i_SCLK'', Inr clk), (''i_SP'', Inr (Const 1)), (''i_CD'', Inr (Const 0)),
        (''i_D'', index d b), (''o_Q'', index q b)]) m"

definition get_oreg :: "hdl_expr \<Rightarrow> hdl_expr \<Rightarrow> hdl_expr \<Rightarrow> module \<Rightarrow> error + module" where
  "get_oreg clk d q m =
     for_range (len q) (\<lambda>b. add_submodule None ''OFS1P3DX''
       [(''i_SCLK'', Inr clk), (''i_SP'', Inr (Const 1)), (''i_CD'', Inr (Const 0)),
        (''i_D'', index d b), (''o_Q'', index q b)]) m"


text \<open>A value that may be \<open>None\<close>, passed whole as a connection.\<close>

definition whole :: "hdl_expr option \<Rightarrow> error + hdl_expr" where
  "whole v = (case v of None \<Rightarrow> Inl TypeError | Some x \<Rightarrow> Inr x)"

subsection \<open>ECP5: \<open>_get_xdr_buffer\<close>\<close>

definition ECP5_get_oereg :: "hdl_expr \<Rightarrow> hdl_expr \<Rightarrow> hdl_expr \<Rightarrow> module \<Rightarrow> error + module" where
  "ECP5_get_oereg clk oe q m =
     for_range (len q) (\<lambda>b. add_submodule None ''OFS1P3DX''
       [(''i_SCLK'', Inr clk), (''i_SP'', Inr (Const 1)), (''i_CD'', Inr (Const 0)),
        (''i_D'', Inr oe), (''o_Q'', index q b)]) m"

definition ECP5_get_iddr ::
  "hdl_expr \<Rightarrow> hdl_expr \<Rightarrow> hdl_expr \<Rightarrow> hdl_expr \<Rightarrow> module \<Rightarrow> error + module" where
  "ECP5_get_iddr sclk d q0 q1 m =
     for_range (len d) (\<lambda>b. add_submodule None ''IDDRX1F''
       [(''i_SCLK'', Inr sclk), (''i_RST'', Inr (Const 0)), (''i_D'', index d b),
        (''o_Q0'', index q0 b), (''o_Q1'', index q1 b)]) m"

definition ECP5_get_iddrx2 ::
  "hdl_expr \<Rightarrow> hdl_expr \<Rightarrow> hdl_expr \<Rightarrow> hdl_expr \<Rightarrow> hdl_expr \<Rightarrow> hdl_expr \<Rightarrow> hdl_expr
   \<Rightarrow> module \<Rightarrow> error + module" where
  "ECP5_get_iddrx2 sclk eclk d q0 q1 q2 q3 m =
     for_range (len d) (\<lambda>b. add_submodule None ''IDDRX2F''
       [(''i_SCLK'', Inr sclk), (''i_ECLK'', Inr eclk), (''i_RST'', Inr (Const 0)),
        (''i_D'', index d b),
        (''o_Q0'', index q0 b), (''o_Q1'', index q1 b), (''o_Q2'', index q2 b),
        (''o_Q3'', index q3 b)]) m"

definition ECP5_get_iddr71b ::
  "hdl_expr \<Rightarrow> hdl_expr \<Rightarrow> hdl_expr \<Rightarrow> hdl_expr \<Rightarrow> hdl_expr \<Rightarrow> hdl_expr \<Rightarrow> hdl_expr
   \<Rightarrow> hdl_expr \<Rightarrow> hdl_expr \<Rightarrow> hdl_expr \<Rightarrow> module \<Rightarrow> error + module" where
  "ECP5_get_iddr71b sclk eclk d q0 q1 q2 q3 q4 q5 q6 m =
     for_range (len d) (\<lambda>b. add_submodule None ''IDDR71B''
       [(''i_SCLK'', Inr sclk), (''i_ECLK'', Inr eclk), (''i_RST'', Inr (Const 0)),
        (''i_D'', index d b),
        (''o_Q0'', index q0 b), (''o_Q1'', index q1 b), (''o_Q2'', index q2 b),
        (''o_Q3'', index q3 b), (''o_Q4'', index q4 b), (''o_Q5'', index q5 b),
        (''o_Q6'', index q6 b)]) m"

definition ECP5_get_oddr ::
  "hdl_expr \<Rightarrow> hdl_expr \<Rightarrow> hdl_expr \<Rightarrow> hdl_expr \<Rightarrow> module \<Rightarrow> error + module" where
  "ECP5_get_oddr sclk d0 d1 q m =
     for_range (len q) (\<lambda>b. add_submodule None ''ODDRX1F''
       [(''i_SCLK'', Inr sclk), (''i_RST'', Inr (Const 0)),
        (''i_D0'', index d0 b), (''i_D1'', index d1 b), (''o_Q'', index q b)]) m"

definition ECP5_get_oddrx2 ::
  "hdl_expr \<Rightarrow> hdl_expr \<Rightarrow> hdl_expr \<Rightarrow> hdl_expr \<Rightarrow> hdl_expr \<Rightarrow> hdl_expr \<Rightarrow> hdl_expr
   \<Rightarrow> module \<Rightarrow> error + module" where
  "ECP5_get_oddrx2 sclk eclk d0 d1 d2 d3 q m =
     for_range (len q) (\<lambda>b. add_submodule None ''ODDRX2F''
       [(''i_SCLK'', Inr sclk), (''i_ECLK'', Inr eclk), (''i_RST'', Inr (Const 0)),
        (''i_D0'', index d0 b), (''i_D1'', index d1 b), (''i_D2'', index d2 b),
        (''i_D3'', index d3 b), (''o_Q'', index q b)]) m"

definition ECP5_get_oddr71b ::
  "hdl_expr \<Rightarrow> hdl_expr \<Rightarrow> hdl_expr \<Rightarrow> hdl_expr \<Rightarrow> hdl_expr \<Rightarrow> hdl_expr \<Rightarrow> hdl_expr
   \<Rightarrow> hdl_expr \<Rightarrow> hdl_expr \<Rightarrow> hdl_expr \<Rightarrow> module \<Rightarrow> error + module" where
  "ECP5_get_oddr71b sclk eclk d0 d1 d2 d3 d4 d5 d6 q m =
     for_range (len q) (\<lambda>b. add_submodule None ''ODDR71B''
       [(''i_SCLK'', Inr sclk), (''i_ECLK'', Inr eclk), (''i_RST'', Inr (Const 0)),
        (''i_D0'', index d0 b), (''i_D1'', index d1 b), (''i_D2'', index d2 b),
        (''i_D3'', index d3 b), (''i_D4'', index d4 b), (''i_D5'', index d5 b),
        (''i_D6'', index d6 b), (''o_Q'', index q b)]) m"

text \<open>
  The pin signals that the first part of \<open>_get_xdr_buffer\<close> hands to \<open>get_ineg\<close> (input
  side) and \<open>get_oneg\<close> (output side), by gearing; none at an unsupported gearing.
\<close>

definition ECP5_i_streams :: "pin \<Rightarrow> signal list" where
  "ECP5_i_streams p =
     (if pin_xdr p < 2 then [pin_i p]
      else if pin_xdr p = 2 then [pin_i0 p, pin_i1 p]
      else if pin_xdr p = 4 then [pin_i0 p, pin_i1 p, pin_i2 p, pin_i3 p]
      else if pin_xdr p = 7 then
        [pin_i0 p, pin_i1 p, pin_i2 p, pin_i3 p, pin_i4 p, pin_i5 p, pin_i6 p]
      else [])"

definition ECP5_o_streams :: "pin \<Rightarrow> signal list" where
  "ECP5_o_streams p =
     (if pin_xdr p < 2 then [pin_o p]
      else if pin_xdr p = 2 then [pin_o0 p, pin_o1 p]
      else if pin_xdr p = 4 then [pin_o0 p, pin_o1 p, pin_o2 p, pin_o3 p]
      else if pin_xdr p = 7 then
        [pin_o0 p, pin_o1 p, pin_o2 p, pin_o3 p, pin_o4 p, pin_o5 p, pin_o6 p]
      else [])"

type_synonym xdr_result = "(hdl_expr option \<times> hdl_expr option \<times> hdl_expr option) \<times> module"

text \<open>
  \<open>_get_xdr_buffer(self, m, pin, *, i_invert, o_invert)\<close>. \<open>pin_is\<close> and \<open>pin_os\<close> are the
  local variables \<open>pin_i\<close> or \<open>pin_i0\<close>.. and \<open>pin_o\<close> or \<open>pin_o0\<close>.. that were bound (matched
  as \<open>q\<close>, \<open>q0\<close>.. and \<open>d\<close>, \<open>d0\<close>.. where they are used); using one that was not bound is an
  \<open>UnboundLocalError\<close>. \<open>sig_i\<close>, \<open>sig_o\<close> and \<open>sig_t\<close> are the
  signals first assigned to \<open>i\<close>, \<open>o\<close> and \<open>t\<close>. The result is the triple \<open>(i, o, t)\<close> with
  the module as it has become.
\<close>

definition ECP5_get_xdr_buffer :: "module \<Rightarrow> pin \<Rightarrow> bool \<Rightarrow> bool \<Rightarrow> error + xdr_result" where
  "ECP5_get_xdr_buffer m p i_invert o_invert =
     (let has_i = (CHR ''i'' \<in> set (pin_dir p));
          has_o = (CHR ''o'' \<in> set (pin_dir p));
          has_oe = (pin_dir p \<in> set [''oe'', ''io'']);
          (pin_is, m1) =
             (if has_i then neg_each get_ineg (ECP5_i_streams p) i_invert m else ([], m));
          (pin_os, m2) =
             (if has_o then neg_each get_oneg (ECP5_o_streams p) o_invert m1 else ([], m1));
          sig_i = Signal (pin_width p) (pin_name p @ ''_xdr_i'');
          sig_o = Signal (pin_width p) (pin_name p @ ''_xdr_o'');
          sig_t = Signal (pin_width p) (pin_name p @ ''_xdr_t'');
          m3 = (if has_i then new_signal sig_i m2 else m2);
          m4 = (if has_o then new_signal sig_o m3 else m3);
          m5 = (if has_oe then new_signal sig_t m4 else m4);
          ret = (\<lambda>r. case r of
                   Inl e \<Rightarrow> Inl e
                 | Inr m' \<Rightarrow>
                     Inr ((if has_i then Some (Sig sig_i) else None,
                           if has_o then Some (Sig sig_o) else None,
                           if has_oe then Some (Sig sig_t) else None), m'));
          oereg = if_then has_oe
                    (ECP5_get_oereg (Sig (pin_o_clk p)) (Not (Sig (pin_oe p))) (Sig sig_t))
      in
      if pin_xdr p = 0 then
        (case (if has_i
               then (case pin_is of [q] \<Rightarrow> Inr (Some (Sig q)) | _ \<Rightarrow> Inl UnboundLocalError)
               else Inr None) of
           Inl e \<Rightarrow> Inl e
         | Inr ret_i \<Rightarrow>
             (case (if has_o
                    then (case pin_os of [d] \<Rightarrow> Inr (Some (Sig d))
                          | _ \<Rightarrow> Inl UnboundLocalError)
                    else Inr None) of
                Inl e \<Rightarrow> Inl e
              | Inr ret_o \<Rightarrow>
                  Inr ((ret_i, ret_o,
                        if has_oe
                        then Some (Not (Replicate (Sig (pin_oe p)) (pin_width p)))
                        else None), m5)))
      else if pin_xdr p = 1 then
        ret (then_m (then_m
          (if_then has_i
             (\<lambda>m. case pin_is of
                [q] \<Rightarrow> get_ireg (Sig (pin_i_clk p)) (Sig sig_i) (Sig q) m
              | _ \<Rightarrow> Inl UnboundLocalError) m5)
          (if_then has_o
             (\<lambda>m. case pin_os of
                [d] \<Rightarrow> get_oreg (Sig (pin_o_clk p)) (Sig d) (Sig sig_o) m
              | _ \<Rightarrow> Inl UnboundLocalError)))
          oereg)
      else if pin_xdr p = 2 then
        ret (then_m (then_m
          (if_then has_i
             (\<lambda>m. case pin_is of
                [q0, q1] \<Rightarrow>
                  ECP5_get_iddr (Sig (pin_i_clk p)) (Sig sig_i) (Sig q0) (Sig q1) m
              | _ \<Rightarrow> Inl UnboundLocalError) m5)
          (if_then has_o
             (\<lambda>m. case pin_os of
                [d0, d1] \<Rightarrow>
                  ECP5_get_oddr (Sig (pin_o_clk p)) (Sig d0) (Sig d1) (Sig sig_o) m
              | _ \<Rightarrow> Inl UnboundLocalError)))
          oereg)
      else if pin_xdr p = 4 then
        ret (then_m (then_m
          (if_then has_i
             (\<lambda>m. case pin_is of
                [q0, q1, q2, q3] \<Rightarrow>
                  ECP5_get_iddrx2 (Sig (pin_i_clk p)) (Sig (pin_i_fclk p)) (Sig sig_i)
                    (Sig q0) (Sig q1) (Sig q2) (Sig q3) m
              | _ \<Rightarrow> Inl UnboundLocalError) m5)
          (if_then has_o
             (\<lambda>m. case pin_os of
                [d0, d1, d2, d3] \<Rightarrow>
                  ECP5_get_oddrx2 (Sig (pin_o_clk p)) (Sig (pin_o_fclk p))
                    (Sig d0) (Sig d1) (Sig d2) (Sig d3) (Sig sig_o) m
              | _ \<Rightarrow> Inl UnboundLocalError)))
          oereg)
      else if pin_xdr p = 7 then
        ret (then_m (then_m
          (if_then has_i
             (\<lambda>m. case pin_is of
                [q0, q1, q2, q3, q4, q5, q6] \<Rightarrow>
                  ECP5_get_iddr71b (Sig (pin_i_clk p)) (Sig (pin_i_fclk p)) (Sig sig_i)
                    (Sig q0) (Sig q1) (Sig q2) (Sig q3) (Sig q4)
                    (Sig q5) (Sig q6) m
              | _ \<Rightarrow> Inl UnboundLocalError) m5)
          (if_then has_o
             (\<lambda>m. case pin_os of
                [d0, d1, d2, d3, d4, d5, d6] \<Rightarrow>
                  ECP5_get_oddr71b (Sig (pin_o_clk p)) (Sig (pin_o_fclk p))
                    (Sig d0) (Sig d1) (Sig d2) (Sig d3) (Sig d4)
                    (Sig d5) (Sig d6) (Sig sig_o) m
              | _ \<Rightarrow> Inl UnboundLocalError)))
          oereg)
      else
        Inl (ValueError (''Invalid gearing '' @ str_nat (pin_xdr p) @ '' for pin '' @ pin_name p
                         @ '', must be one of, 0, 1, 2, 4, or 7'')))"

subsection \<open>ECP5: the buffer primitives\<close>









subsection \<open>MachXO2/MachXO3L: \<open>_get_xdr_buffer\<close>\<close>

definition MachXO_get_iddr ::
  "hdl_expr \<Rightarrow> hdl_expr \<Rightarrow> hdl_expr \<Rightarrow> hdl_expr \<Rightarrow> module \<Rightarrow> error + module" where
  "MachXO_get_iddr sclk d q0 q1 m =
     for_range (len d) (\<lambda>b. add_submodule None ''IDDRXE''
       [(''i_SCLK'', Inr sclk), (''i_RST'', Inr (Const 0)), (''i_D'', index d b),
        (''o_Q0'', index q0 b), (''o_Q1'', index q1 b)]) m"

definition MachXO_get_oddr ::
  "hdl_expr \<Rightarrow> hdl_expr \<Rightarrow> hdl_expr \<Rightarrow> hdl_expr \<Rightarrow> module \<Rightarrow> error + module" where
  "MachXO_get_oddr sclk d0 d1 q m =
     for_range (len q) (\<lambda>b. add_submodule None ''ODDRXE''
       [(''i_SCLK'', Inr sclk), (''i_RST'', Inr (Const 0)),
        (''i_D0'', index d0 b), (''i_D1'', index d1 b), (''o_Q'', index q b)]) m"

definition MachXO_i_streams :: "pin \<Rightarrow> signal list" where
  "MachXO_i_streams p =
     (if pin_xdr p < 2 then [pin_i p]
      else if pin_xdr p = 2 then [pin_i0 p, pin_i1 p]
      else [])"

definition MachXO_o_streams :: "pin \<Rightarrow> signal list" where
  "MachXO_o_streams p =
     (if pin_xdr p < 2 then [pin_o p]
      else if pin_xdr p = 2 then [pin_o0 p, pin_o1 p]
      else [])"

text \<open>
  As on ECP5, except that \<open>t\<close> is one bit wide, that the enable register is made by
  \<open>get_oreg\<close>, and that the last branch is \<open>assert False\<close>.
\<close>

definition MachXO_get_xdr_buffer :: "module \<Rightarrow> pin \<Rightarrow> bool \<Rightarrow> bool \<Rightarrow> error + xdr_result" where
  "MachXO_get_xdr_buffer m p i_invert o_invert =
     (let has_i = (CHR ''i'' \<in> set (pin_dir p));
          has_o = (CHR ''o'' \<in> set (pin_dir p));
          has_oe = (pin_dir p \<in> set [''oe'', ''io'']);
          (pin_is, m1) =
             (if has_i then neg_each get_ineg (MachXO_i_streams p) i_invert m else ([], m));
          (pin_os, m2) =
             (if has_o then neg_each get_oneg (MachXO_o_streams p) o_invert m1 else ([], m1));
          sig_i = Signal (pin_width p) (pin_name p @ ''_xdr_i'');
          sig_o = Signal (pin_width p) (pin_name p @ ''_xdr_o'');
          sig_t = Signal 1 (pin_name p @ ''_xdr_t'');
          m3 = (if has_i then new_signal sig_i m2 else m2);
          m4 = (if has_o then new_signal sig_o m3 else m3);
          m5 = (if has_oe then new_signal sig_t m4 else m4);
          ret = (\<lambda>r. case r of
                   Inl e \<Rightarrow> Inl e
                 | Inr m' \<Rightarrow>
                     Inr ((if has_i then Some (Sig sig_i) else None,
                           if has_o then Some (Sig sig_o) else None,
                           if has_oe then Some (Sig sig_t) else None), m'));
          oereg = if_then has_oe
                    (get_oreg (Sig (pin_o_clk p)) (Not (Sig (pin_oe p))) (Sig sig_t))
      in
      if pin_xdr p = 0 then
        (case (if has_i
               then (case pin_is of [q] \<Rightarrow> Inr (Some (Sig q)) | _ \<Rightarrow> Inl UnboundLocalError)
               else Inr None) of
           Inl e \<Rightarrow> Inl e
         | Inr ret_i \<Rightarrow>
             (case (if has_o
                    then (case pin_os of [d] \<Rightarrow> Inr (Some (Sig d))
                          | _ \<Rightarrow> Inl UnboundLocalError)
                    else Inr None) of
                Inl e \<Rightarrow> Inl e
              | Inr ret_o \<Rightarrow>
                  Inr ((ret_i, ret_o,
                        if has_oe then Some (Not (Sig (pin_oe p))) else None), m5)))
      else if pin_xdr p = 1 then
        ret (then_m (then_m
          (if_then has_i
             (\<lambda>m. case pin_is of
                [q] \<Rightarrow> get_ireg (Sig (pin_i_clk p)) (Sig sig_i) (Sig q) m
              | _ \<Rightarrow> Inl UnboundLocalError) m5)
          (if_then has_o
             (\<lambda>m. case pin_os of
                [d] \<Rightarrow> get_oreg (Sig (pin_o_clk p)) (Sig d) (Sig sig_o) m
              | _ \<Rightarrow> Inl UnboundLocalError)))
          oereg)
      else if pin_xdr p = 2 then
        ret (then_m (then_m
          (if_then has_i
             (\<lambda>m. case pin_is of
                [q0, q1] \<Rightarrow>
                  MachXO_get_iddr (Sig (pin_i_clk p)) (Sig sig_i) (Sig q0) (Sig q1) m
              | _ \<Rightarrow> Inl UnboundLocalError) m5)
          (if_then has_o
             (\<lambda>m. case pin_os of
                [d0, d1] \<Rightarrow>
                  MachXO_get_oddr (Sig (pin_o_clk p)) (Sig d0) (Sig d1) (Sig sig_o) m
              | _ \<Rightarrow> Inl UnboundLocalError)))
          oereg)
      else Inl AssertionError)"

subsection \<open>MachXO2/MachXO3L: the buffer primitives\<close>









subsection \<open>Vocabulary of the I/O buffer properties\<close>

text \<open>
  What the core guarantees of a pin it hands over (the \<open>Pin\<close> constructor, lib/io.py,
  outside the sources): every data signal has the pin's width and the output enable is
  one bit wide.
\<close>

definition pin_ok :: "pin \<Rightarrow> bool" where
  "pin_ok p =
     ((\<forall>s \<in> set [pin_i p, pin_i0 p, pin_i1 p, pin_i2 p, pin_i3 p, pin_i4 p, pin_i5 p, pin_i6 p,
                 pin_o p, pin_o0 p, pin_o1 p, pin_o2 p, pin_o3 p, pin_o4 p, pin_o5 p, pin_o6 p].
          signal_width s = pin_width p)
      \<and> signal_width (pin_oe p) = 1)"

text \<open>The tests on the direction that \<open>_get_xdr_buffer\<close> makes.\<close>

definition dir_i :: "pin \<Rightarrow> bool" where
  "dir_i p = (CHR ''i'' \<in> set (pin_dir p))"

definition dir_o :: "pin \<Rightarrow> bool" where
  "dir_o p = (CHR ''o'' \<in> set (pin_dir p))"

definition dir_oe :: "pin \<Rightarrow> bool" where
  "dir_oe p = (pin_dir p \<in> set [''oe'', ''io''])"

text \<open>The signals \<open>_get_xdr_buffer\<close> makes for \<open>i\<close>, \<open>o\<close> and \<open>t\<close>.\<close>

definition xdr_i :: "pin \<Rightarrow> signal" where
  "xdr_i p = Signal (pin_width p) (pin_name p @ ''_xdr_i'')"

definition xdr_o :: "pin \<Rightarrow> signal" where
  "xdr_o p = Signal (pin_width p) (pin_name p @ ''_xdr_o'')"

definition ECP5_xdr_t :: "pin \<Rightarrow> signal" where
  "ECP5_xdr_t p = Signal (pin_width p) (pin_name p @ ''_xdr_t'')"

definition MachXO_xdr_t :: "pin \<Rightarrow> signal" where
  "MachXO_xdr_t p = Signal 1 (pin_name p @ ''_xdr_t'')"

text \<open>What \<open>get_ineg\<close> and \<open>get_oneg\<close> return for a pin signal.\<close>

definition negated :: "bool \<Rightarrow> signal \<Rightarrow> signal" where
  "negated invert z = (if invert then Signal_like z ''_n'' else z)"

text \<open>
  The bit indices an instance is connected to: the \<open>b\<close> of every connection \<open>v[b]\<close>.
  Instances come one per bit when the \<open>j\<close>-th instance of a list is connected to bit
  \<open>j mod w\<close> and to no other: groups of \<open>w\<close> instances, each group a pipeline stage.
\<close>

fun arg_bits :: "inst_arg \<Rightarrow> nat list" where
  "arg_bits (Conn (Slice v b)) = [b]"
| "arg_bits a = []"

definition inst_bits :: "prim_instance \<Rightarrow> nat list" where
  "inst_bits inst = concat (map (\<lambda>ka. arg_bits (snd ka)) (prim_args inst))"

definition one_per_bit :: "nat \<Rightarrow> (string option \<times> prim_instance) list \<Rightarrow> bool" where
  "one_per_bit w insts =
     (\<forall>j < length insts. set (inst_bits (snd (insts ! j))) = {j mod w})"

text \<open>
  The auxiliary signals of a module: those made by \<open>Signal.like\<close>. The values connected
  to the instances of a list, in order.
\<close>

definition aux_signals :: "module \<Rightarrow> alloc list" where
  "aux_signals m = filter (\<lambda>a. case a of Like z s \<Rightarrow> True | New s \<Rightarrow> False) (signals m)"

fun arg_conns :: "inst_arg \<Rightarrow> hdl_expr list" where
  "arg_conns (Conn v) = [v]"
| "arg_conns a = []"

definition connections :: "(string option \<times> prim_instance) list \<Rightarrow> hdl_expr list" where
  "connections insts =
     concat (map (\<lambda>inst. concat (map (\<lambda>ka. arg_conns (snd ka)) (prim_args (snd inst)))) insts)"






text \<open>
  The instances each helper adds when no index is out of range: the closed form of its
  loop.
\<close>

definition get_ireg_instances ::
  "hdl_expr \<Rightarrow> hdl_expr \<Rightarrow> hdl_expr \<Rightarrow> (string option \<times> prim_instance) list" where
  "get_ireg_instances clk d q =
     map (\<lambda>b. (None, Instance ''IFS1P3DX''
             [(''i_SCLK'', Conn clk), (''i_SP'', Conn (Const 1)), (''i_CD'', Conn (Const 0)),
              (''i_D'', Conn (Slice d b)), (''o_Q'', Conn (Slice q b))]))
       [0..<len q]"

definition get_oreg_instances ::
  "hdl_expr \<Rightarrow> hdl_expr \<Rightarrow> hdl_expr \<Rightarrow> (string option \<times> prim_instance) list" where
  "get_oreg_instances clk d q =
     map (\<lambda>b. (None, Instance ''OFS1P3DX''
             [(''i_SCLK'', Conn clk), (''i_SP'', Conn (Const 1)), (''i_CD'', Conn (Const 0)),
              (''i_D'', Conn (Slice d b)), (''o_Q'', Conn (Slice q b))]))
       [0..<len q]"

definition ECP5_get_oereg_instances ::
  "hdl_expr \<Rightarrow> hdl_expr \<Rightarrow> hdl_expr \<Rightarrow> (string option \<times> prim_instance) list" where
  "ECP5_get_oereg_instances clk oe q =
     map (\<lambda>b. (None, Instance ''OFS1P3DX''
             [(''i_SCLK'', Conn clk), (''i_SP'', Conn (Const 1)), (''i_CD'', Conn (Const 0)),
              (''i_D'', Conn oe), (''o_Q'', Conn (Slice q b))]))
       [0..<len q]"

definition ECP5_get_iddr_instances ::
  "hdl_expr \<Rightarrow> hdl_expr \<Rightarrow> hdl_expr \<Rightarrow> hdl_expr \<Rightarrow> (string option \<times> prim_instance) list" where
  "ECP5_get_iddr_instances sclk d q0 q1 =
     map (\<lambda>b. (None, Instance ''IDDRX1F''
             [(''i_SCLK'', Conn sclk), (''i_RST'', Conn (Const 0)),
              (''i_D'', Conn (Slice d b)), (''o_Q0'', Conn (Slice q0 b)),
              (''o_Q1'', Conn (Slice q1 b))]))
       [0..<len d]"

definition ECP5_get_iddrx2_instances ::
  "hdl_expr \<Rightarrow> hdl_expr \<Rightarrow> hdl_expr \<Rightarrow> hdl_expr \<Rightarrow> hdl_expr \<Rightarrow> hdl_expr \<Rightarrow> hdl_expr \<Rightarrow> (string option \<times> prim_instance) list" where
  "ECP5_get_iddrx2_instances sclk eclk d q0 q1 q2 q3 =
     map (\<lambda>b. (None, Instance ''IDDRX2F''
             [(''i_SCLK'', Conn sclk), (''i_ECLK'', Conn eclk), (''i_RST'', Conn (Const 0)),
              (''i_D'', Conn (Slice d b)), (''o_Q0'', Conn (Slice q0 b)),
              (''o_Q1'', Conn (Slice q1 b)), (''o_Q2'', Conn (Slice q2 b)),
              (''o_Q3'', Conn (Slice q3 b))]))
       [0..<len d]"

definition ECP5_get_iddr71b_instances ::
  "hdl_expr \<Rightarrow> hdl_expr \<Rightarrow> hdl_expr \<Rightarrow> hdl_expr \<Rightarrow> hdl_expr \<Rightarrow> hdl_expr \<Rightarrow> hdl_expr \<Rightarrow> hdl_expr \<Rightarrow> hdl_expr \<Rightarrow> hdl_expr \<Rightarrow> (string option \<times> prim_instance) list" where
  "ECP5_get_iddr71b_instances sclk eclk d q0 q1 q2 q3 q4 q5 q6 =
     map (\<lambda>b. (None, Instance ''IDDR71B''
             [(''i_SCLK'', Conn sclk), (''i_ECLK'', Conn eclk), (''i_RST'', Conn (Const 0)),
              (''i_D'', Conn (Slice d b)), (''o_Q0'', Conn (Slice q0 b)),
              (''o_Q1'', Conn (Slice q1 b)), (''o_Q2'', Conn (Slice q2 b)),
              (''o_Q3'', Conn (Slice q3 b)), (''o_Q4'', Conn (Slice q4 b)),
              (''o_Q5'', Conn (Slice q5 b)), (''o_Q6'', Conn (Slice q6 b))]))
       [0..<len d]"

definition ECP5_get_oddr_instances ::
  "hdl_expr \<Rightarrow> hdl_expr \<Rightarrow> hdl_expr \<Rightarrow> hdl_expr \<Rightarrow> (string option \<times> prim_instance) list" where
  "ECP5_get_oddr_instances sclk d0 d1 q =
     map (\<lambda>b. (None, Instance ''ODDRX1F''
             [(''i_SCLK'', Conn sclk), (''i_RST'', Conn (Const 0)),
              (''i_D0'', Conn (Slice d0 b)), (''i_D1'', Conn (Slice d1 b)),
              (''o_Q'', Conn (Slice q b))]))
       [0..<len q]"

definition ECP5_get_oddrx2_instances ::
  "hdl_expr \<Rightarrow> hdl_expr \<Rightarrow> hdl_expr \<Rightarrow> hdl_expr \<Rightarrow> hdl_expr \<Rightarrow> hdl_expr \<Rightarrow> hdl_expr \<Rightarrow> (string option \<times> prim_instance) list" where
  "ECP5_get_oddrx2_instances sclk eclk d0 d1 d2 d3 q =
     map (\<lambda>b. (None, Instance ''ODDRX2F''
             [(''i_SCLK'', Conn sclk), (''i_ECLK'', Conn eclk), (''i_RST'', Conn (Const 0)),
              (''i_D0'', Conn (Slice d0 b)), (''i_D1'', Conn (Slice d1 b)),
              (''i_D2'', Conn (Slice d2 b)), (''i_D3'', Conn (Slice d3 b)),
              (''o_Q'', Conn (Slice q b))]))
       [0..<len q]"

definition ECP5_get_oddr71b_instances ::
  "hdl_expr \<Rightarrow> hdl_expr \<Rightarrow> hdl_expr \<Rightarrow> hdl_expr \<Rightarrow> hdl_expr \<Rightarrow> hdl_expr \<Rightarrow> hdl_expr \<Rightarrow> hdl_expr \<Rightarrow> hdl_expr \<Rightarrow> hdl_expr \<Rightarrow> (string option \<times> prim_instance) list" where
  "ECP5_get_oddr71b_instances sclk eclk d0 d1 d2 d3 d4 d5 d6 q =
     map (\<lambda>b. (None, Instance ''ODDR71B''
             [(''i_SCLK'', Conn sclk), (''i_ECLK'', Conn eclk), (''i_RST'', Conn (Const 0)),
              (''i_D0'', Conn (Slice d0 b)), (''i_D1'', Conn (Slice d1 b)),
              (''i_D2'', Conn (Slice d2 b)), (''i_D3'', Conn (Slice d3 b)),
              (''i_D4'', Conn (Slice d4 b)), (''i_D5'', Conn (Slice d5 b)),
              (''i_D6'', Conn (Slice d6 b)), (''o_Q'', Conn (Slice q b))]))
       [0..<len q]"

definition MachXO_get_iddr_instances ::
  "hdl_expr \<Rightarrow> hdl_expr \<Rightarrow> hdl_expr \<Rightarrow> hdl_expr \<Rightarrow> (string option \<times> prim_instance) list" where
  "MachXO_get_iddr_instances sclk d q0 q1 =
     map (\<lambda>b. (None, Instance ''IDDRXE''
             [(''i_SCLK'', Conn sclk), (''i_RST'', Conn (Const 0)),
              (''i_D'', Conn (Slice d b)), (''o_Q0'', Conn (Slice q0 b)),
              (''o_Q1'', Conn (Slice q1 b))]))
       [0..<len d]"

definition MachXO_get_oddr_instances ::
  "hdl_expr \<Rightarrow> hdl_expr \<Rightarrow> hdl_expr \<Rightarrow> hdl_expr \<Rightarrow> (string option \<times> prim_instance) list" where
  "MachXO_get_oddr_instances sclk d0 d1 q =
     map (\<lambda>b. (None, Instance ''ODDRXE''
             [(''i_SCLK'', Conn sclk), (''i_RST'', Conn (Const 0)),
              (''i_D0'', Conn (Slice d0 b)), (''i_D1'', Conn (Slice d1 b)),
              (''o_Q'', Conn (Slice q b))]))
       [0..<len q]"

subsection \<open>An example pin\<close>

text \<open>
  A pin as the core makes it for tests: named \<open>x\<close>, with every data signal of the pin's
  width and one-bit enable and clocks. It is the concrete input of the examples below.
\<close>

definition example_pin :: "string \<Rightarrow> nat \<Rightarrow> nat \<Rightarrow> pin" where
  "example_pin dr wd xd =
     \<lparr>pin_name = ''x'', pin_dir = dr, pin_width = wd, pin_xdr = xd,
      pin_i = Signal wd ''x__i'', pin_i0 = Signal wd ''x__i0'', pin_i1 = Signal wd ''x__i1'',
      pin_i2 = Signal wd ''x__i2'', pin_i3 = Signal wd ''x__i3'', pin_i4 = Signal wd ''x__i4'',
      pin_i5 = Signal wd ''x__i5'', pin_i6 = Signal wd ''x__i6'',
      pin_o = Signal wd ''x__o'', pin_o0 = Signal wd ''x__o0'', pin_o1 = Signal wd ''x__o1'',
      pin_o2 = Signal wd ''x__o2'', pin_o3 = Signal wd ''x__o3'', pin_o4 = Signal wd ''x__o4'',
      pin_o5 = Signal wd ''x__o5'', pin_o6 = Signal wd ''x__o6'',
      pin_oe = Signal 1 ''x__oe'',
      pin_i_clk = Signal 1 ''x__i_clk'', pin_i_fclk = Signal 1 ''x__i_fclk'',
      pin_o_clk = Signal 1 ''x__o_clk'', pin_o_fclk = Signal 1 ''x__o_fclk''\<rparr>"

section \<open>Priority encoder (nmigen/lib/coding.py)\<close>

text \<open>\<open>for b in v\<close> iterates over the bits of a value, least significant first.\<close>

definition bits_of :: "hdl_expr \<Rightarrow> hdl_expr list" where
  "bits_of v = map (Slice v) [0..<len v]"

record priority_encoder =
  enc_i :: signal
  enc_o :: signal
  enc_n :: signal

text \<open>\<open>Signal(max = M)\<close> has \<open>bits_for(M - 1)\<close> bits.\<close>

definition PriorityEncoder :: "nat \<Rightarrow> priority_encoder" where
  "PriorityEncoder width =
     \<lparr>enc_i = Signal width ''i'',
      enc_o = Signal (bits_for (max 2 width - 1)) ''o'',
      enc_n = Signal 1 ''n''\<rparr>"

definition PriorityEncoder_get_fragment :: "priority_encoder \<Rightarrow> statement list" where
  "PriorityEncoder_get_fragment self =
     map (\<lambda>(j, b). If_stmt b [Assign (Sig (enc_o self)) (Const (len (Sig (enc_i self)) - j - 1))])
         (enumerate 0 (rev (bits_of (Sig (enc_i self)))))
     @ [Assign (Sig (enc_n self)) (Equals (Sig (enc_i self)) (Const 0))]"

text \<open>
  Modelled from the spec: what the statements of a fragment compute is defined by the
  core (signal algebra, elaboration), which is outside the sources. The statements of
  the combinational domain take effect in the order they were added: a later assignment
  to a signal overrides an earlier one (last write wins), an assignment under \<open>m.If\<close>
  happens only when the condition is non-zero, an assignment truncates to the width of
  its target, and a signal that is never assigned has its reset value 0. A store gives
  every signal its value.
\<close>

type_synonym store = "signal \<Rightarrow> nat"

fun eval :: "store \<Rightarrow> hdl_expr \<Rightarrow> nat" where
  "eval s (Sig x) = s x"
| "eval s (Const c) = c"
| "eval s (Not v) = 2 ^ len v - 1 - eval s v"
| "eval s (Replicate v n) = eval s v * (\<Sum>k < n. 2 ^ (k * len v))"
| "eval s (Slice v b) = (eval s v div 2 ^ b) mod 2"
| "eval s (Equals v w) = (if eval s v = eval s w then 1 else 0)"
| "eval s (ClockSignal d) = 0"

fun exec :: "statement \<Rightarrow> store \<Rightarrow> store" where
  "exec (Assign lhs rhs) s =
     (case lhs of
        Sig x \<Rightarrow> s(x := eval s rhs mod 2 ^ signal_width x)
      | _ \<Rightarrow> s)"
| "exec (If_stmt c body) s = (if eval s c \<noteq> 0 then fold exec body s else s)"

definition run_comb :: "statement list \<Rightarrow> store \<Rightarrow> store" where
  "run_comb stmts inputs = fold exec stmts inputs"

text \<open>
  The outputs \<open>(o, n)\<close> of the emitted circuit of a \<open>PriorityEncoder(width)\<close> whose input
  \<open>i\<close> has the value \<open>v\<close>.
\<close>

definition encoder_outputs :: "nat \<Rightarrow> nat \<Rightarrow> nat \<times> nat" where
  "encoder_outputs width v =
     (let self = PriorityEncoder width;
          s = run_comb (PriorityEncoder_get_fragment self) ((\<lambda>x. 0)(enc_i self := v))
      in (s (enc_o self), s (enc_n self)))"

section \<open>Properties\<close>

subsection \<open>Resource builders\<close>

lemma Pins_valid:
  "length (str_split ns) = 1 \<Longrightarrow>
   Pins ns d c (Some (Suc 0))
     = Inr \<lparr>pins_names = str_split ns, pins_dir = d, pins_invert = False, pins_conn = c\<rparr>"
  by (simp add: Pins_def)

lemma PinsN_valid:
  "length (str_split ns) = 1 \<Longrightarrow>
   PinsN ns d c (Some (Suc 0))
     = Inr \<lparr>pins_names = str_split ns, pins_dir = d, pins_invert = True, pins_conn = c\<rparr>"
  by (simp add: PinsN_def Pins_valid)

text \<open>
  Claim C7. With pin strings that each name one pin, \<open>UARTResource\<close> called with only
  \<open>rx\<close> and \<open>tx\<close> (no flow-control line, no attributes) builds exactly the two
  sub-signals \<open>rx\<close> (input) and \<open>tx\<close> (output), whatever the role; called with \<open>rts\<close> and
  \<open>cts\<close> as well and the role \<open>dce\<close> or \<open>dte\<close>, it builds exactly four, where \<open>rts\<close> is an
  output and \<open>cts\<close> an input for \<open>dte\<close>, and the reverse for \<open>dce\<close>.
\<close>

theorem UARTResource_subsignals:
  assumes "length (str_split rx) = 1" and "length (str_split tx) = 1"
  shows "(\<exists>io. UARTResource args rx tx None None None None None None c None role
                 = Inr (Resource_family args ''uart'' io)
              \<and> length io = 2
              \<and> map subsignal_name io = [Some ''rx'', Some ''tx'']
              \<and> map subsignal_dir io = [Some ''i'', Some ''o''])
       \<and> (length (str_split rts) = 1 \<and> length (str_split cts) = 1
              \<and> (role = Some ''dce'' \<or> role = Some ''dte'') \<longrightarrow>
           (\<exists>io. UARTResource args rx tx (Some rts) (Some cts) None None None None c None role
                 = Inr (Resource_family args ''uart'' io)
              \<and> length io = 4
              \<and> map subsignal_name io = [Some ''rx'', Some ''tx'', Some ''rts'', Some ''cts'']
              \<and> map subsignal_dir io =
                   (if role = Some ''dte'' then [Some ''i'', Some ''o'', Some ''o'', Some ''i'']
                    else [Some ''i'', Some ''o'', Some ''i'', Some ''o''])))"
  using assms
  by (auto simp: UARTResource_def Pins_valid append_subsignal_def then_io_def append_attrs_def)

theorem UARTResource_subsignals_witness:
  "length (str_split ''A1'') = 1 \<and> length (str_split ''B2'') = 1
   \<and> (\<exists>io. UARTResource [ArgNumber 0] ''A1'' ''B2'' None None None None None None None None
              (Some ''dte'')
             = Inr (Resource_family [ArgNumber 0] ''uart'' io) \<and> length io = 2)
   \<and> (\<exists>io. UARTResource [ArgNumber 0] ''A1'' ''B2'' (Some ''C3'') (Some ''D4'') None None None None
              None None (Some ''dte'')
             = Inr (Resource_family [ArgNumber 0] ''uart'' io)
           \<and> map subsignal_dir io = [Some ''i'', Some ''o'', Some ''o'', Some ''i''])"
proof -
  have a: "length (str_split ''A1'') = 1" "length (str_split ''B2'') = 1"
          "length (str_split ''C3'') = 1" "length (str_split ''D4'') = 1"
    by (simp_all add: str_split_def is_space_def)
  from UARTResource_subsignals [OF a(1) a(2), of "[ArgNumber 0]" None "Some ''dte''" "''C3''" "''D4''"]
  show ?thesis using a by auto
qed

text \<open>
  Claim C8. \<open>IrDAResource\<close> given both \<open>en\<close> and \<open>sd\<close>, or neither, fails on its first
  statement (the assertion), whatever the other arguments are, so before any sub-signal
  is built. Given exactly one of them (and pin strings that each name one pin) it
  succeeds, and the resource has exactly one sub-signal named \<open>en\<close>: an output, not
  inverted when it comes from \<open>en\<close>, inverted (\<open>PinsN\<close>) when it comes from \<open>sd\<close>.
\<close>

theorem IrDAResource_enable_pair:
  "((en \<noteq> None) = (sd \<noteq> None) \<longrightarrow> IrDAResource number rx tx en sd c a = Inl AssertionError)
   \<and> (length (str_split rx) = 1 \<and> length (str_split tx) = 1 \<and> length (str_split s) = 1 \<longrightarrow>
        (\<exists>io. IrDAResource number rx tx (Some s) None c a = Inr (Resource ''irda'' number io)
             \<and> take 3 (map subsignal_name io) = [Some ''rx'', Some ''tx'', Some ''en'']
             \<and> filter (\<lambda>e. subsignal_name e = Some ''en'') io
                 = [Subsignal ''en''
                      \<lparr>pins_names = str_split s, pins_dir = ''o'', pins_invert = False,
                         pins_conn = c\<rparr>])
      \<and> (\<exists>io. IrDAResource number rx tx None (Some s) c a = Inr (Resource ''irda'' number io)
             \<and> take 3 (map subsignal_name io) = [Some ''rx'', Some ''tx'', Some ''en'']
             \<and> filter (\<lambda>e. subsignal_name e = Some ''en'') io
                 = [Subsignal ''en''
                      \<lparr>pins_names = str_split s, pins_dir = ''o'', pins_invert = True,
                         pins_conn = c\<rparr>]))"
  by (auto simp: IrDAResource_def Pins_valid PinsN_valid append_subsignal_def then_io_def
      append_attrs_def split: option.splits)

theorem IrDAResource_enable_pair_witness:
  "IrDAResource 0 ''A1'' ''B2'' (Some ''C3'') (Some ''D4'') None None = Inl AssertionError
   \<and> IrDAResource 0 ''A1'' ''B2'' None None None None = Inl AssertionError
   \<and> length (str_split ''A1'') = 1 \<and> length (str_split ''B2'') = 1 \<and> length (str_split ''C3'') = 1
   \<and> (\<exists>io. IrDAResource 0 ''A1'' ''B2'' None (Some ''C3'') None None = Inr (Resource ''irda'' 0 io)
          \<and> filter (\<lambda>e. subsignal_name e = Some ''en'') io
              = [Subsignal ''en''
                   \<lparr>pins_names = [''C3''], pins_dir = ''o'', pins_invert = True, pins_conn = None\<rparr>])"
proof -
  have a: "str_split ''A1'' = [''A1'']" "str_split ''B2'' = [''B2'']" "str_split ''C3'' = [''C3'']"
    by (simp_all add: str_split_def is_space_def)
  from IrDAResource_enable_pair [of "Some ''C3''" "Some ''D4''" 0 "''A1''" "''B2''" None None "''C3''"]
       IrDAResource_enable_pair [of None None 0 "''A1''" "''B2''" None None "''C3''"]
  show ?thesis using a by auto
qed

subsection \<open>Differential ports\<close>

text \<open>
  Claim C5. On both platforms \<open>should_skip_port_component\<close> is true exactly when the
  component is \<open>n\<close> and the \<open>IO_TYPE\<close> attribute, \<open>LVCMOS25\<close> when absent, is in the
  platform's list of differential types; so it is false for every type outside the
  list and for every other component, and false whenever \<open>IO_TYPE\<close> is absent, the
  default not being a differential type.
\<close>

theorem should_skip_port_component_iff:
  "(ECP5_should_skip_port_component port a component \<longleftrightarrow>
      component = ''n''
      \<and> (case a ''IO_TYPE'' of None \<Rightarrow> ''LVCMOS25'' | Some t \<Rightarrow> t) \<in> set ECP5_differential_io_types)
   \<and> (MachXO_should_skip_port_component port a component \<longleftrightarrow>
      component = ''n''
      \<and> (case a ''IO_TYPE'' of None \<Rightarrow> ''LVCMOS25'' | Some t \<Rightarrow> t) \<in> set MachXO_differential_io_types)
   \<and> (a ''IO_TYPE'' = None \<longrightarrow>
        \<not> ECP5_should_skip_port_component port a component
        \<and> \<not> MachXO_should_skip_port_component port a component)"
proof -
  have d: "''LVCMOS25'' \<notin> set ECP5_differential_io_types"
          "''LVCMOS25'' \<notin> set MachXO_differential_io_types"
    by (simp_all add: ECP5_differential_io_types_def MachXO_differential_io_types_def)
  show ?thesis
    using d
    by (auto simp: ECP5_should_skip_port_component_def MachXO_should_skip_port_component_def
        attrs_get_def split: option.splits)
qed

theorem should_skip_port_component_iff_witness:
  "ECP5_should_skip_port_component () [''IO_TYPE'' \<mapsto> ''LVDS''] ''n''
   \<and> \<not> MachXO_should_skip_port_component () [''IO_TYPE'' \<mapsto> ''LVDS''] ''n''
   \<and> \<not> ECP5_should_skip_port_component () [''IO_TYPE'' \<mapsto> ''LVDS''] ''p''
   \<and> Map.empty ''IO_TYPE'' = (None :: string option)
   \<and> \<not> ECP5_should_skip_port_component () Map.empty ''n''
   \<and> \<not> MachXO_should_skip_port_component () Map.empty ''n''"
  using should_skip_port_component_iff [of "()" "[''IO_TYPE'' \<mapsto> ''LVDS'']" "''n''"]
        should_skip_port_component_iff [of "()" "[''IO_TYPE'' \<mapsto> ''LVDS'']" "''p''"]
        should_skip_port_component_iff [of "()" Map.empty "''n''"]
  by (simp add: ECP5_differential_io_types_def MachXO_differential_io_types_def)

subsection \<open>ECP5 toolchain selection\<close>

text \<open>
  Claim C6 fails on the code. \<open>__init__\<close> tests \<open>self.toolchain\<close>, still the class
  attribute, before it stores its argument: with the class as written
  (\<open>toolchain = None\<close>) construction fails for \<open>Trellis\<close> and for \<open>Diamond\<close>, and where a
  board class presets the attribute, any argument is accepted and the properties raise
  afterwards.
\<close>

theorem ECP5Platform_init_checks_class_attribute:
  "ECP5Platform_init ECP5Platform ''Trellis'' = Inl (unknown_toolchain None)
   \<and> ECP5Platform_init ECP5Platform ''Diamond'' = Inl (unknown_toolchain None)
   \<and> ECP5Platform_init (ECP5Platform\<lparr>toolchain := Some ''Trellis''\<rparr>) ''Vivado''
       = Inr (ECP5Platform\<lparr>toolchain := Some ''Vivado''\<rparr>)
   \<and> required_tools (ECP5Platform\<lparr>toolchain := Some ''Vivado''\<rparr>)
       = Inl (unknown_toolchain (Some ''Vivado''))"
  by (simp add: ECP5Platform_init_def ECP5Platform_def required_tools_def)

subsection \<open>ECP5 internal oscillator\<close>














subsection \<open>Priority encoder\<close>

lemma bits_for_bound: "n < 2 ^ bits_for n"
proof (induction n rule: bits_for.induct)
  case (1 n)
  show ?case
  proof (cases "n < 2")
    case True
    then show ?thesis by (simp add: bits_for.simps [of n])
  next
    case False
    with 1 have "n div 2 < 2 ^ bits_for (n div 2)" by simp
    then have "n < 2 * 2 ^ bits_for (n div 2)" by linarith
    with False show ?thesis by (simp add: bits_for.simps [of n])
  qed
qed

lemma enumerate_rev_map:
  "map (\<lambda>(j, b). G (w - j - 1) b) (enumerate 0 (rev (map f [0..<w])))
     = map (\<lambda>k. G k (f k)) (rev [0..<w])"
  by (rule nth_equalityI) (simp_all add: nth_enumerate_eq rev_nth)

lemma fragment_eq:
  "PriorityEncoder_get_fragment (PriorityEncoder w) =
     map (\<lambda>k. If_stmt (Slice (Sig (Signal w ''i'')) k)
                 [Assign (Sig (Signal (bits_for (max 2 w - 1)) ''o'')) (Const k)])
         (rev [0..<w])
     @ [Assign (Sig (Signal 1 ''n'')) (Equals (Sig (Signal w ''i'')) (Const 0))]"
  using enumerate_rev_map [of "\<lambda>k b. If_stmt b [Assign (Sig (Signal (bits_for (max 2 w - 1)) ''o'')) (Const k)]"
      w "Slice (Sig (Signal w ''i''))"]
  by (simp add: PriorityEncoder_get_fragment_def PriorityEncoder_def bits_of_def)

lemma run_bits:
  assumes "i \<noteq> out"
  shows "s i = v \<Longrightarrow>
     fold exec (map (\<lambda>k. If_stmt (Slice (Sig i) k) [Assign (Sig out) (Const k)]) (rev [0..<n])) s
       = s(out := if \<exists>j<n. bit v j then (LEAST j. bit v j) mod 2 ^ signal_width out else s out)"
proof (induction n arbitrary: s)
  case 0
  then show ?case by simp
next
  case (Suc n)
  define s' where "s' = exec (If_stmt (Slice (Sig i) n) [Assign (Sig out) (Const n)]) s"
  have s': "s' = (if bit v n then s(out := n mod 2 ^ signal_width out) else s)"
    using Suc.prems by (simp add: s'_def bit_iff_odd odd_iff_mod_2_eq_one)
  have unroll:
    "fold exec (map (\<lambda>k. If_stmt (Slice (Sig i) k) [Assign (Sig out) (Const k)]) (rev [0..<Suc n])) s
      = fold exec (map (\<lambda>k. If_stmt (Slice (Sig i) k) [Assign (Sig out) (Const k)]) (rev [0..<n])) s'"
    by (simp add: s'_def)
  have "s' i = v" using Suc.prems assms by (simp add: s')
  from Suc.IH [of s', OF this]
  have r: "fold exec (map (\<lambda>k. If_stmt (Slice (Sig i) k) [Assign (Sig out) (Const k)]) (rev [0..<n])) s'
        = s'(out := if \<exists>j<n. bit v j then (LEAST j. bit v j) mod 2 ^ signal_width out else s' out)" .
  show ?case
  proof (cases "\<exists>j<n. bit v j")
    case True
    then have "\<exists>j<Suc n. bit v j" using less_Suc_eq by blast
    with True show ?thesis unfolding unroll r by (auto simp: s' fun_eq_iff)
  next
    case False
    show ?thesis
    proof (cases "bit v n")
      case True
      with False have "(LEAST j. bit v j) = n"
        by (intro Least_equality) (auto simp: not_less)
      moreover have "\<exists>j<Suc n. bit v j" using True by blast
      ultimately show ?thesis using False True unfolding unroll r by (auto simp: s' fun_eq_iff)
    next
      case b: False
      with False have "\<not> (\<exists>j<Suc n. bit v j)" using less_Suc_eq by blast
      with False b show ?thesis unfolding unroll r by (auto simp: s' fun_eq_iff)
    qed
  qed
qed

lemma nonzero_has_bit:
  fixes v :: nat
  assumes "v \<noteq> 0" "v < 2 ^ w"
  shows "\<exists>j<w. bit v j"
proof -
  have "\<exists>j. bit v j"
  proof (rule ccontr)
    assume "\<not> (\<exists>j. bit v j)"
    then have "v = 0" by (simp add: bit_eq_iff)
    with assms(1) show False by simp
  qed
  then obtain j where j: "bit v j" by blast
  have "j < w"
  proof (rule ccontr)
    assume "\<not> j < w"
    then have "(2::nat) ^ w \<le> 2 ^ j" by simp
    with assms(2) have "v < 2 ^ j" by linarith
    then have "\<not> bit v j" by (simp add: bit_iff_odd)
    with j show False by simp
  qed
  with j show ?thesis by blast
qed

text \<open>
  Claim C9. For every width and every value \<open>v\<close> of the \<open>width\<close>-bit input, the circuit
  of \<open>PriorityEncoder.get_fragment\<close> drives \<open>n\<close> to 0 and \<open>o\<close> to the index of the least
  significant set bit of \<open>v\<close> when \<open>v\<close> is not zero, and drives \<open>n\<close> to 1 and \<open>o\<close> to 0
  when it is zero.
\<close>

theorem PriorityEncoder_least_significant:
  assumes "v < 2 ^ width"
  shows "(v \<noteq> 0 \<longrightarrow>
            snd (encoder_outputs width v) = 0
          \<and> fst (encoder_outputs width v) < width
          \<and> bit v (fst (encoder_outputs width v))
          \<and> (\<forall>j < fst (encoder_outputs width v). \<not> bit v j))
       \<and> (v = 0 \<longrightarrow> encoder_outputs width v = (0, 1))"
proof -
  let ?i = "Signal width ''i''" and ?o = "Signal (bits_for (max 2 width - 1)) ''o''"
  let ?n = "Signal 1 ''n''"
  let ?s0 = "(\<lambda>x. 0)(?i := v)"
  have ne: "?i \<noteq> ?o" by simp
  have run: "fold exec (map (\<lambda>k. If_stmt (Slice (Sig ?i) k) [Assign (Sig ?o) (Const k)]) (rev [0..<width])) ?s0
      = ?s0(?o := if \<exists>j<width. bit v j then (LEAST j. bit v j) mod 2 ^ signal_width ?o else ?s0 ?o)"
    by (rule run_bits [OF ne]) simp
  let ?X = "if \<exists>j<width. bit v j then (LEAST j. bit v j) mod 2 ^ signal_width ?o else ?s0 ?o"
  have "run_comb (PriorityEncoder_get_fragment (PriorityEncoder width)) ?s0
      = exec (Assign (Sig ?n) (Equals (Sig ?i) (Const 0)))
          (fold exec (map (\<lambda>k. If_stmt (Slice (Sig ?i) k) [Assign (Sig ?o) (Const k)]) (rev [0..<width])) ?s0)"
    by (simp add: run_comb_def fragment_eq)
  also have "\<dots> = exec (Assign (Sig ?n) (Equals (Sig ?i) (Const 0))) (?s0(?o := ?X))"
    by (simp only: run)
  also have "\<dots> = (?s0(?o := ?X))(?n := (if v = 0 then 1 else 0))"
    by simp
  finally have final: "run_comb (PriorityEncoder_get_fragment (PriorityEncoder width)) ?s0
      = (?s0(?o := ?X))(?n := (if v = 0 then 1 else 0))" .
  have out: "encoder_outputs width v =
      ((if \<exists>j<width. bit v j then (LEAST j. bit v j) mod 2 ^ bits_for (max 2 width - 1) else 0),
       (if v = 0 then 1 else 0))"
    unfolding encoder_outputs_def Let_def
    using final by (auto simp: PriorityEncoder_def)
  show ?thesis
  proof (intro conjI impI)
    assume "v = 0"
    then show "encoder_outputs width v = (0, 1)" unfolding out by simp
  next
    assume nz: "v \<noteq> 0"
    from nonzero_has_bit [OF nz assms] obtain j where j: "j < width" "bit v j" by blast
    let ?k = "LEAST j. bit v j"
    have k: "bit v ?k" using j(2) by (rule LeastI)
    have kj: "?k \<le> j" using j(2) by (rule Least_le)
    then have "?k \<le> max 2 width - 1" using j(1) by simp
    also have "\<dots> < 2 ^ bits_for (max 2 width - 1)" by (rule bits_for_bound)
    finally have small: "?k mod 2 ^ bits_for (max 2 width - 1) = ?k" by simp
    have o: "fst (encoder_outputs width v) = ?k" using j small by (auto simp: out)
    show "snd (encoder_outputs width v) = 0" using nz by (simp add: out)
    show "fst (encoder_outputs width v) < width" using o kj j(1) by simp
    show "bit v (fst (encoder_outputs width v))" using o k by simp
    show "\<forall>j < fst (encoder_outputs width v). \<not> bit v j"
      using o not_less_Least by auto
  qed
qed

theorem PriorityEncoder_least_significant_witness:
  "(12::nat) < 2 ^ 4 \<and> encoder_outputs 4 12 = (2, 0) \<and> (0::nat) < 2 ^ 4 \<and> encoder_outputs 4 0 = (0, 1)"
proof -
  have b: "\<not> bit (12::nat) 0" "\<not> bit (12::nat) 1" "bit (12::nat) 2"
    by (simp_all add: bit_iff_odd)
  have lt: "(12::nat) < 2 ^ 4" "(0::nat) < 2 ^ 4" by simp_all
  from PriorityEncoder_least_significant [OF lt(1)]
  have p: "snd (encoder_outputs 4 12) = 0" "fst (encoder_outputs 4 12) < 4"
       "bit (12::nat) (fst (encoder_outputs 4 12))"
       "\<forall>j < fst (encoder_outputs 4 12). \<not> bit (12::nat) j" by simp_all
  have "fst (encoder_outputs 4 12) \<le> 2"
  proof (rule ccontr)
    assume "\<not> fst (encoder_outputs 4 12) \<le> 2"
    then have "2 < fst (encoder_outputs 4 12)" by simp
    with p(4) have "\<not> bit (12::nat) 2" by blast
    with b(3) show False by simp
  qed
  then consider "fst (encoder_outputs 4 12) = 0" | "fst (encoder_outputs 4 12) = 1"
    | "fst (encoder_outputs 4 12) = 2" by linarith
  then have "fst (encoder_outputs 4 12) = 2"
    using p(3) b by cases simp_all
  with p(1) have "encoder_outputs 4 12 = (2, 0)" by (simp add: prod_eq_iff)
  moreover from PriorityEncoder_least_significant [OF lt(2)] have "encoder_outputs 4 0 = (0, 1)" by simp
  ultimately show ?thesis by simp
qed

subsection \<open>I/O buffers: closed forms of the helpers\<close>

lemma for_each_add_submodule:
  assumes "\<And>b. b \<in> set bs \<Longrightarrow> eval_args (as b) = Inr (vs b)"
  shows "for_each bs (\<lambda>b. add_submodule (nm b) t (as b)) m
           = Inr (m\<lparr>submodules := submodules m @ map (\<lambda>b. (nm b, Instance t (vs b))) bs\<rparr>)"
  using assms by (induction bs arbitrary: m) (simp_all add: add_submodule_def)

lemma for_range_add_submodule:
  assumes "\<And>b. b < n \<Longrightarrow> eval_args (as b) = Inr (vs b)"
  shows "for_range n (\<lambda>b. add_submodule (nm b) t (as b)) m
           = Inr (m\<lparr>submodules := submodules m @ map (\<lambda>b. (nm b, Instance t (vs b))) [0..<n]\<rparr>)"
  unfolding for_range_def by (rule for_each_add_submodule) (simp add: assms)

lemma index_ok: "b < len v \<Longrightarrow> index v b = Inr (Slice v b)"
  by (simp add: index_def)

lemma signal_width_like [simp]: "signal_width (Signal_like z s) = signal_width z"
  by (cases z) simp

lemma one_per_bit_Nil [simp]: "one_per_bit w []"
  by (simp add: one_per_bit_def)

lemma one_per_bit_append:
  assumes "length xs = w * k" and "one_per_bit w xs" and "one_per_bit w ys"
  shows "one_per_bit w (xs @ ys)"
  unfolding one_per_bit_def
proof (intro allI impI)
  fix j assume j: "j < length (xs @ ys)"
  show "set (inst_bits (snd ((xs @ ys) ! j))) = {j mod w}"
  proof (cases "j < length xs")
    case True
    with assms(2) show ?thesis by (simp add: one_per_bit_def nth_append)
  next
    case False
    then have "j - length xs < length ys" using j by simp
    with assms(3) have "set (inst_bits (snd (ys ! (j - length xs)))) = {(j - length xs) mod w}"
      by (simp add: one_per_bit_def)
    moreover have "(j - length xs) mod w = j mod w"
      using False assms(1) by (metis mod_mult_self2 add_diff_inverse_nat add.commute)
    ultimately show ?thesis using False by (simp add: nth_append)
  qed
qed

lemma get_ireg_ok:
  assumes "len q \<le> len d"
  shows "get_ireg clk d q m
           = Inr (m\<lparr>submodules := submodules m @ get_ireg_instances clk d q\<rparr>)"
  unfolding get_ireg_def get_ireg_instances_def
  by (rule for_range_add_submodule) (use assms in \<open>simp add: index_ok\<close>)

lemma length_get_ireg_instances [simp]:
  "length (get_ireg_instances clk d q) = len q"
  by (simp add: get_ireg_instances_def)


lemma get_oreg_ok:
  assumes "len q \<le> len d"
  shows "get_oreg clk d q m
           = Inr (m\<lparr>submodules := submodules m @ get_oreg_instances clk d q\<rparr>)"
  unfolding get_oreg_def get_oreg_instances_def
  by (rule for_range_add_submodule) (use assms in \<open>simp add: index_ok\<close>)

lemma length_get_oreg_instances [simp]:
  "length (get_oreg_instances clk d q) = len q"
  by (simp add: get_oreg_instances_def)


lemma ECP5_get_oereg_ok:
  "ECP5_get_oereg clk oe q m
           = Inr (m\<lparr>submodules := submodules m @ ECP5_get_oereg_instances clk oe q\<rparr>)"
  unfolding ECP5_get_oereg_def ECP5_get_oereg_instances_def
  by (rule for_range_add_submodule) (simp add: index_ok)

lemma length_ECP5_get_oereg_instances [simp]:
  "length (ECP5_get_oereg_instances clk oe q) = len q"
  by (simp add: ECP5_get_oereg_instances_def)


lemma ECP5_get_iddr_ok:
  assumes "len d \<le> len q0" and "len d \<le> len q1"
  shows "ECP5_get_iddr sclk d q0 q1 m
           = Inr (m\<lparr>submodules := submodules m @ ECP5_get_iddr_instances sclk d q0 q1\<rparr>)"
  unfolding ECP5_get_iddr_def ECP5_get_iddr_instances_def
  by (rule for_range_add_submodule) (use assms in \<open>simp add: index_ok\<close>)

lemma length_ECP5_get_iddr_instances [simp]:
  "length (ECP5_get_iddr_instances sclk d q0 q1) = len d"
  by (simp add: ECP5_get_iddr_instances_def)


lemma ECP5_get_iddrx2_ok:
  assumes "len d \<le> len q0" and "len d \<le> len q1" and "len d \<le> len q2" and "len d \<le> len q3"
  shows "ECP5_get_iddrx2 sclk eclk d q0 q1 q2 q3 m
           = Inr (m\<lparr>submodules := submodules m @ ECP5_get_iddrx2_instances sclk eclk d q0 q1 q2 q3\<rparr>)"
  unfolding ECP5_get_iddrx2_def ECP5_get_iddrx2_instances_def
  by (rule for_range_add_submodule) (use assms in \<open>simp add: index_ok\<close>)

lemma length_ECP5_get_iddrx2_instances [simp]:
  "length (ECP5_get_iddrx2_instances sclk eclk d q0 q1 q2 q3) = len d"
  by (simp add: ECP5_get_iddrx2_instances_def)


lemma ECP5_get_iddr71b_ok:
  assumes "len d \<le> len q0" and "len d \<le> len q1" and "len d \<le> len q2" and "len d \<le> len q3" and "len d \<le> len q4" and "len d \<le> len q5" and "len d \<le> len q6"
  shows "ECP5_get_iddr71b sclk eclk d q0 q1 q2 q3 q4 q5 q6 m
           = Inr (m\<lparr>submodules := submodules m @ ECP5_get_iddr71b_instances sclk eclk d q0 q1 q2 q3 q4 q5 q6\<rparr>)"
  unfolding ECP5_get_iddr71b_def ECP5_get_iddr71b_instances_def
  by (rule for_range_add_submodule) (use assms in \<open>simp add: index_ok\<close>)

lemma length_ECP5_get_iddr71b_instances [simp]:
  "length (ECP5_get_iddr71b_instances sclk eclk d q0 q1 q2 q3 q4 q5 q6) = len d"
  by (simp add: ECP5_get_iddr71b_instances_def)


lemma ECP5_get_oddr_ok:
  assumes "len q \<le> len d0" and "len q \<le> len d1"
  shows "ECP5_get_oddr sclk d0 d1 q m
           = Inr (m\<lparr>submodules := submodules m @ ECP5_get_oddr_instances sclk d0 d1 q\<rparr>)"
  unfolding ECP5_get_oddr_def ECP5_get_oddr_instances_def
  by (rule for_range_add_submodule) (use assms in \<open>simp add: index_ok\<close>)

lemma length_ECP5_get_oddr_instances [simp]:
  "length (ECP5_get_oddr_instances sclk d0 d1 q) = len q"
  by (simp add: ECP5_get_oddr_instances_def)


lemma ECP5_get_oddrx2_ok:
  assumes "len q \<le> len d0" and "len q \<le> len d1" and "len q \<le> len d2" and "len q \<le> len d3"
  shows "ECP5_get_oddrx2 sclk eclk d0 d1 d2 d3 q m
           = Inr (m\<lparr>submodules := submodules m @ ECP5_get_oddrx2_instances sclk eclk d0 d1 d2 d3 q\<rparr>)"
  unfolding ECP5_get_oddrx2_def ECP5_get_oddrx2_instances_def
  by (rule for_range_add_submodule) (use assms in \<open>simp add: index_ok\<close>)

lemma length_ECP5_get_oddrx2_instances [simp]:
  "length (ECP5_get_oddrx2_instances sclk eclk d0 d1 d2 d3 q) = len q"
  by (simp add: ECP5_get_oddrx2_instances_def)


lemma ECP5_get_oddr71b_ok:
  assumes "len q \<le> len d0" and "len q \<le> len d1" and "len q \<le> len d2" and "len q \<le> len d3" and "len q \<le> len d4" and "len q \<le> len d5" and "len q \<le> len d6"
  shows "ECP5_get_oddr71b sclk eclk d0 d1 d2 d3 d4 d5 d6 q m
           = Inr (m\<lparr>submodules := submodules m @ ECP5_get_oddr71b_instances sclk eclk d0 d1 d2 d3 d4 d5 d6 q\<rparr>)"
  unfolding ECP5_get_oddr71b_def ECP5_get_oddr71b_instances_def
  by (rule for_range_add_submodule) (use assms in \<open>simp add: index_ok\<close>)

lemma length_ECP5_get_oddr71b_instances [simp]:
  "length (ECP5_get_oddr71b_instances sclk eclk d0 d1 d2 d3 d4 d5 d6 q) = len q"
  by (simp add: ECP5_get_oddr71b_instances_def)


lemma MachXO_get_iddr_ok:
  assumes "len d \<le> len q0" and "len d \<le> len q1"
  shows "MachXO_get_iddr sclk d q0 q1 m
           = Inr (m\<lparr>submodules := submodules m @ MachXO_get_iddr_instances sclk d q0 q1\<rparr>)"
  unfolding MachXO_get_iddr_def MachXO_get_iddr_instances_def
  by (rule for_range_add_submodule) (use assms in \<open>simp add: index_ok\<close>)

lemma length_MachXO_get_iddr_instances [simp]:
  "length (MachXO_get_iddr_instances sclk d q0 q1) = len d"
  by (simp add: MachXO_get_iddr_instances_def)


lemma MachXO_get_oddr_ok:
  assumes "len q \<le> len d0" and "len q \<le> len d1"
  shows "MachXO_get_oddr sclk d0 d1 q m
           = Inr (m\<lparr>submodules := submodules m @ MachXO_get_oddr_instances sclk d0 d1 q\<rparr>)"
  unfolding MachXO_get_oddr_def MachXO_get_oddr_instances_def
  by (rule for_range_add_submodule) (use assms in \<open>simp add: index_ok\<close>)

lemma length_MachXO_get_oddr_instances [simp]:
  "length (MachXO_get_oddr_instances sclk d0 d1 q) = len q"
  by (simp add: MachXO_get_oddr_instances_def)


lemma neg_each_get_ineg:
  "neg_each get_ineg zs invert m =
     (map (negated invert) zs,
      m\<lparr>signals := signals m @ (if invert then map (\<lambda>z. Like z (negated True z)) zs else []),
        comb := comb m @ (if invert
                         then map (\<lambda>z. Assign (Sig z) (Not (Sig (negated True z)))) zs
                         else [])\<rparr>)"
  by (induction zs arbitrary: m) (simp_all add: get_ineg_def Let_def negated_def)

lemma neg_each_get_oneg:
  "neg_each get_oneg zs invert m =
     (map (negated invert) zs,
      m\<lparr>signals := signals m @ (if invert then map (\<lambda>a. Like a (negated True a)) zs else []),
        comb := comb m @ (if invert
                         then map (\<lambda>a. Assign (Sig (negated True a)) (Not (Sig a))) zs
                         else [])\<rparr>)"
  by (induction zs arbitrary: m) (simp_all add: get_oneg_def Let_def negated_def)

lemma signal_width_negated [simp]: "signal_width (negated b z) = signal_width z"
  by (simp add: negated_def)

lemma signal_width_xdr [simp]:
  "signal_width (xdr_i p) = pin_width p" "signal_width (xdr_o p) = pin_width p"
  "signal_width (ECP5_xdr_t p) = pin_width p" "signal_width (MachXO_xdr_t p) = 1"
  by (simp_all add: xdr_i_def xdr_o_def ECP5_xdr_t_def MachXO_xdr_t_def)

declare neg_each.simps [simp del]

subsection \<open>I/O buffers: what \<open>_get_xdr_buffer\<close> builds at each gearing\<close>

lemma ECP5_xdr0:
  assumes "pin_ok p" and "pin_xdr p = 0"
  shows "ECP5_get_xdr_buffer m p i_invert o_invert =
    Inr ((if dir_i p
          then Some (Sig (negated i_invert (pin_i p))) else None,
          if dir_o p
          then Some (Sig (negated o_invert (pin_o p))) else None,
          if dir_oe p then Some (Not (Replicate (Sig (pin_oe p)) (pin_width p))) else None),
         m\<lparr>signals := signals m
          @ (if dir_i p \<and> i_invert
             then map (\<lambda>z. Like z (negated True z)) [pin_i p] else [])
          @ (if dir_o p \<and> o_invert
             then map (\<lambda>a. Like a (negated True a)) [pin_o p] else [])
          @ (if dir_i p then [New (xdr_i p)] else [])
          @ (if dir_o p then [New (xdr_o p)] else [])
          @ (if dir_oe p then [New (ECP5_xdr_t p)] else []),
           comb := comb m
          @ (if dir_i p \<and> i_invert
             then map (\<lambda>z. Assign (Sig z) (Not (Sig (negated True z)))) [pin_i p] else [])
          @ (if dir_o p \<and> o_invert
             then map (\<lambda>a. Assign (Sig (negated True a)) (Not (Sig a))) [pin_o p] else [])\<rparr>)"
  using assms
  unfolding ECP5_get_xdr_buffer_def dir_i_def [symmetric] dir_o_def [symmetric]
    dir_oe_def [symmetric] xdr_i_def [symmetric] xdr_o_def [symmetric]
    ECP5_xdr_t_def [symmetric]
  by (simp add: ECP5_i_streams_def ECP5_o_streams_def pin_ok_def Let_def split_def
      neg_each_get_ineg neg_each_get_oneg new_signal_def if_then_def then_m_def
       )

lemma ECP5_xdr1:
  assumes "pin_ok p" and "pin_xdr p = 1"
  shows "ECP5_get_xdr_buffer m p i_invert o_invert =
    Inr ((if dir_i p then Some (Sig (xdr_i p)) else None,
          if dir_o p then Some (Sig (xdr_o p)) else None,
          if dir_oe p then Some (Sig (ECP5_xdr_t p)) else None),
         m\<lparr>signals := signals m
          @ (if dir_i p \<and> i_invert
             then map (\<lambda>z. Like z (negated True z)) [pin_i p] else [])
          @ (if dir_o p \<and> o_invert
             then map (\<lambda>a. Like a (negated True a)) [pin_o p] else [])
          @ (if dir_i p then [New (xdr_i p)] else [])
          @ (if dir_o p then [New (xdr_o p)] else [])
          @ (if dir_oe p then [New (ECP5_xdr_t p)] else []),
           comb := comb m
          @ (if dir_i p \<and> i_invert
             then map (\<lambda>z. Assign (Sig z) (Not (Sig (negated True z)))) [pin_i p] else [])
          @ (if dir_o p \<and> o_invert
             then map (\<lambda>a. Assign (Sig (negated True a)) (Not (Sig a))) [pin_o p] else []),
           submodules := submodules m
          @ (if dir_i p
             then get_ireg_instances (Sig (pin_i_clk p)) (Sig (xdr_i p)) (Sig (negated i_invert
               (pin_i p)))
             else [])
          @ (if dir_o p
             then get_oreg_instances (Sig (pin_o_clk p)) (Sig (negated o_invert (pin_o p))) (Sig
               (xdr_o p))
             else [])
          @ (if dir_oe p
             then ECP5_get_oereg_instances (Sig (pin_o_clk p)) (Not (Sig (pin_oe p))) (Sig
               (ECP5_xdr_t p))
             else [])\<rparr>)"
  using assms
  unfolding ECP5_get_xdr_buffer_def dir_i_def [symmetric] dir_o_def [symmetric]
    dir_oe_def [symmetric] xdr_i_def [symmetric] xdr_o_def [symmetric]
    ECP5_xdr_t_def [symmetric]
  by (simp add: ECP5_i_streams_def ECP5_o_streams_def pin_ok_def Let_def split_def
      neg_each_get_ineg neg_each_get_oneg new_signal_def if_then_def then_m_def
      get_ireg_ok get_oreg_ok ECP5_get_oereg_ok)

lemma ECP5_xdr2:
  assumes "pin_ok p" and "pin_xdr p = 2"
  shows "ECP5_get_xdr_buffer m p i_invert o_invert =
    Inr ((if dir_i p then Some (Sig (xdr_i p)) else None,
          if dir_o p then Some (Sig (xdr_o p)) else None,
          if dir_oe p then Some (Sig (ECP5_xdr_t p)) else None),
         m\<lparr>signals := signals m
          @ (if dir_i p \<and> i_invert
             then map (\<lambda>z. Like z (negated True z)) [pin_i0 p, pin_i1 p] else [])
          @ (if dir_o p \<and> o_invert
             then map (\<lambda>a. Like a (negated True a)) [pin_o0 p, pin_o1 p] else [])
          @ (if dir_i p then [New (xdr_i p)] else [])
          @ (if dir_o p then [New (xdr_o p)] else [])
          @ (if dir_oe p then [New (ECP5_xdr_t p)] else []),
           comb := comb m
          @ (if dir_i p \<and> i_invert
             then map (\<lambda>z. Assign (Sig z) (Not (Sig (negated True z)))) [pin_i0 p, pin_i1 p] else [])
          @ (if dir_o p \<and> o_invert
             then map (\<lambda>a. Assign (Sig (negated True a)) (Not (Sig a))) [pin_o0 p, pin_o1 p] else []),
           submodules := submodules m
          @ (if dir_i p
             then ECP5_get_iddr_instances (Sig (pin_i_clk p)) (Sig (xdr_i p)) (Sig (negated
               i_invert (pin_i0 p))) (Sig (negated i_invert (pin_i1 p)))
             else [])
          @ (if dir_o p
             then ECP5_get_oddr_instances (Sig (pin_o_clk p)) (Sig (negated o_invert (pin_o0
               p))) (Sig (negated o_invert (pin_o1 p))) (Sig (xdr_o p))
             else [])
          @ (if dir_oe p
             then ECP5_get_oereg_instances (Sig (pin_o_clk p)) (Not (Sig (pin_oe p))) (Sig
               (ECP5_xdr_t p))
             else [])\<rparr>)"
  using assms
  unfolding ECP5_get_xdr_buffer_def dir_i_def [symmetric] dir_o_def [symmetric]
    dir_oe_def [symmetric] xdr_i_def [symmetric] xdr_o_def [symmetric]
    ECP5_xdr_t_def [symmetric]
  by (simp add: ECP5_i_streams_def ECP5_o_streams_def pin_ok_def Let_def split_def
      neg_each_get_ineg neg_each_get_oneg new_signal_def if_then_def then_m_def
      ECP5_get_iddr_ok ECP5_get_oddr_ok ECP5_get_oereg_ok)

lemma ECP5_xdr4:
  assumes "pin_ok p" and "pin_xdr p = 4"
  shows "ECP5_get_xdr_buffer m p i_invert o_invert =
    Inr ((if dir_i p then Some (Sig (xdr_i p)) else None,
          if dir_o p then Some (Sig (xdr_o p)) else None,
          if dir_oe p then Some (Sig (ECP5_xdr_t p)) else None),
         m\<lparr>signals := signals m
          @ (if dir_i p \<and> i_invert
             then map (\<lambda>z. Like z (negated True z)) [pin_i0 p, pin_i1 p, pin_i2 p, pin_i3 p] else [])
          @ (if dir_o p \<and> o_invert
             then map (\<lambda>a. Like a (negated True a)) [pin_o0 p, pin_o1 p, pin_o2 p, pin_o3 p] else [])
          @ (if dir_i p then [New (xdr_i p)] else [])
          @ (if dir_o p then [New (xdr_o p)] else [])
          @ (if dir_oe p then [New (ECP5_xdr_t p)] else []),
           comb := comb m
          @ (if dir_i p \<and> i_invert
             then map (\<lambda>z. Assign (Sig z) (Not (Sig (negated True z)))) [pin_i0 p, pin_i1 p, pin_i2 p, pin_i3 p] else [])
          @ (if dir_o p \<and> o_invert
             then map (\<lambda>a. Assign (Sig (negated True a)) (Not (Sig a))) [pin_o0 p, pin_o1 p, pin_o2 p, pin_o3 p] else []),
           submodules := submodules m
          @ (if dir_i p
             then ECP5_get_iddrx2_instances (Sig (pin_i_clk p)) (Sig (pin_i_fclk p)) (Sig (xdr_i
               p)) (Sig (negated i_invert (pin_i0 p))) (Sig (negated i_invert (pin_i1 p))) (Sig
               (negated i_invert (pin_i2 p))) (Sig (negated i_invert (pin_i3 p)))
             else [])
          @ (if dir_o p
             then ECP5_get_oddrx2_instances (Sig (pin_o_clk p)) (Sig (pin_o_fclk p)) (Sig
               (negated o_invert (pin_o0 p))) (Sig (negated o_invert (pin_o1 p))) (Sig (negated
               o_invert (pin_o2 p))) (Sig (negated o_invert (pin_o3 p))) (Sig (xdr_o p))
             else [])
          @ (if dir_oe p
             then ECP5_get_oereg_instances (Sig (pin_o_clk p)) (Not (Sig (pin_oe p))) (Sig
               (ECP5_xdr_t p))
             else [])\<rparr>)"
  using assms
  unfolding ECP5_get_xdr_buffer_def dir_i_def [symmetric] dir_o_def [symmetric]
    dir_oe_def [symmetric] xdr_i_def [symmetric] xdr_o_def [symmetric]
    ECP5_xdr_t_def [symmetric]
  by (simp add: ECP5_i_streams_def ECP5_o_streams_def pin_ok_def Let_def split_def
      neg_each_get_ineg neg_each_get_oneg new_signal_def if_then_def then_m_def
      ECP5_get_iddrx2_ok ECP5_get_oddrx2_ok ECP5_get_oereg_ok)

lemma ECP5_xdr7:
  assumes "pin_ok p" and "pin_xdr p = 7"
  shows "ECP5_get_xdr_buffer m p i_invert o_invert =
    Inr ((if dir_i p then Some (Sig (xdr_i p)) else None,
          if dir_o p then Some (Sig (xdr_o p)) else None,
          if dir_oe p then Some (Sig (ECP5_xdr_t p)) else None),
         m\<lparr>signals := signals m
          @ (if dir_i p \<and> i_invert
             then map (\<lambda>z. Like z (negated True z)) [pin_i0 p, pin_i1 p, pin_i2 p, pin_i3 p, pin_i4 p, pin_i5 p, pin_i6 p] else [])
          @ (if dir_o p \<and> o_invert
             then map (\<lambda>a. Like a (negated True a)) [pin_o0 p, pin_o1 p, pin_o2 p, pin_o3 p, pin_o4 p, pin_o5 p, pin_o6 p] else [])
          @ (if dir_i p then [New (xdr_i p)] else [])
          @ (if dir_o p then [New (xdr_o p)] else [])
          @ (if dir_oe p then [New (ECP5_xdr_t p)] else []),
           comb := comb m
          @ (if dir_i p \<and> i_invert
             then map (\<lambda>z. Assign (Sig z) (Not (Sig (negated True z)))) [pin_i0 p, pin_i1 p, pin_i2 p, pin_i3 p, pin_i4 p, pin_i5 p, pin_i6 p] else [])
          @ (if dir_o p \<and> o_invert
             then map (\<lambda>a. Assign (Sig (negated True a)) (Not (Sig a))) [pin_o0 p, pin_o1 p, pin_o2 p, pin_o3 p, pin_o4 p, pin_o5 p, pin_o6 p] else []),
           submodules := submodules m
          @ (if dir_i p
             then ECP5_get_iddr71b_instances (Sig (pin_i_clk p)) (Sig (pin_i_fclk p)) (Sig
               (xdr_i p)) (Sig (negated i_invert (pin_i0 p))) (Sig (negated i_invert (pin_i1
               p))) (Sig (negated i_invert (pin_i2 p))) (Sig (negated i_invert (pin_i3 p))) (Sig
               (negated i_invert (pin_i4 p))) (Sig (negated i_invert (pin_i5 p))) (Sig (negated
               i_invert (pin_i6 p)))
             else [])
          @ (if dir_o p
             then ECP5_get_oddr71b_instances (Sig (pin_o_clk p)) (Sig (pin_o_fclk p)) (Sig
               (negated o_invert (pin_o0 p))) (Sig (negated o_invert (pin_o1 p))) (Sig (negated
               o_invert (pin_o2 p))) (Sig (negated o_invert (pin_o3 p))) (Sig (negated o_invert
               (pin_o4 p))) (Sig (negated o_invert (pin_o5 p))) (Sig (negated o_invert (pin_o6
               p))) (Sig (xdr_o p))
             else [])
          @ (if dir_oe p
             then ECP5_get_oereg_instances (Sig (pin_o_clk p)) (Not (Sig (pin_oe p))) (Sig
               (ECP5_xdr_t p))
             else [])\<rparr>)"
  using assms
  unfolding ECP5_get_xdr_buffer_def dir_i_def [symmetric] dir_o_def [symmetric]
    dir_oe_def [symmetric] xdr_i_def [symmetric] xdr_o_def [symmetric]
    ECP5_xdr_t_def [symmetric]
  by (simp add: ECP5_i_streams_def ECP5_o_streams_def pin_ok_def Let_def split_def
      neg_each_get_ineg neg_each_get_oneg new_signal_def if_then_def then_m_def
      ECP5_get_iddr71b_ok ECP5_get_oddr71b_ok ECP5_get_oereg_ok)

lemma MachXO_xdr0:
  assumes "pin_ok p" and "pin_xdr p = 0"
  shows "MachXO_get_xdr_buffer m p i_invert o_invert =
    Inr ((if dir_i p
          then Some (Sig (negated i_invert (pin_i p))) else None,
          if dir_o p
          then Some (Sig (negated o_invert (pin_o p))) else None,
          if dir_oe p then Some (Not (Sig (pin_oe p))) else None),
         m\<lparr>signals := signals m
          @ (if dir_i p \<and> i_invert
             then map (\<lambda>z. Like z (negated True z)) [pin_i p] else [])
          @ (if dir_o p \<and> o_invert
             then map (\<lambda>a. Like a (negated True a)) [pin_o p] else [])
          @ (if dir_i p then [New (xdr_i p)] else [])
          @ (if dir_o p then [New (xdr_o p)] else [])
          @ (if dir_oe p then [New (MachXO_xdr_t p)] else []),
           comb := comb m
          @ (if dir_i p \<and> i_invert
             then map (\<lambda>z. Assign (Sig z) (Not (Sig (negated True z)))) [pin_i p] else [])
          @ (if dir_o p \<and> o_invert
             then map (\<lambda>a. Assign (Sig (negated True a)) (Not (Sig a))) [pin_o p] else [])\<rparr>)"
  using assms
  unfolding MachXO_get_xdr_buffer_def dir_i_def [symmetric] dir_o_def [symmetric]
    dir_oe_def [symmetric] xdr_i_def [symmetric] xdr_o_def [symmetric]
    MachXO_xdr_t_def [symmetric]
  by (simp add: MachXO_i_streams_def MachXO_o_streams_def pin_ok_def Let_def split_def
      neg_each_get_ineg neg_each_get_oneg new_signal_def if_then_def then_m_def
       )

lemma MachXO_xdr1:
  assumes "pin_ok p" and "pin_xdr p = 1"
  shows "MachXO_get_xdr_buffer m p i_invert o_invert =
    Inr ((if dir_i p then Some (Sig (xdr_i p)) else None,
          if dir_o p then Some (Sig (xdr_o p)) else None,
          if dir_oe p then Some (Sig (MachXO_xdr_t p)) else None),
         m\<lparr>signals := signals m
          @ (if dir_i p \<and> i_invert
             then map (\<lambda>z. Like z (negated True z)) [pin_i p] else [])
          @ (if dir_o p \<and> o_invert
             then map (\<lambda>a. Like a (negated True a)) [pin_o p] else [])
          @ (if dir_i p then [New (xdr_i p)] else [])
          @ (if dir_o p then [New (xdr_o p)] else [])
          @ (if dir_oe p then [New (MachXO_xdr_t p)] else []),
           comb := comb m
          @ (if dir_i p \<and> i_invert
             then map (\<lambda>z. Assign (Sig z) (Not (Sig (negated True z)))) [pin_i p] else [])
          @ (if dir_o p \<and> o_invert
             then map (\<lambda>a. Assign (Sig (negated True a)) (Not (Sig a))) [pin_o p] else []),
           submodules := submodules m
          @ (if dir_i p
             then get_ireg_instances (Sig (pin_i_clk p)) (Sig (xdr_i p)) (Sig (negated i_invert
               (pin_i p)))
             else [])
          @ (if dir_o p
             then get_oreg_instances (Sig (pin_o_clk p)) (Sig (negated o_invert (pin_o p))) (Sig
               (xdr_o p))
             else [])
          @ (if dir_oe p
             then get_oreg_instances (Sig (pin_o_clk p)) (Not (Sig (pin_oe p))) (Sig
               (MachXO_xdr_t p))
             else [])\<rparr>)"
  using assms
  unfolding MachXO_get_xdr_buffer_def dir_i_def [symmetric] dir_o_def [symmetric]
    dir_oe_def [symmetric] xdr_i_def [symmetric] xdr_o_def [symmetric]
    MachXO_xdr_t_def [symmetric]
  by (simp add: MachXO_i_streams_def MachXO_o_streams_def pin_ok_def Let_def split_def
      neg_each_get_ineg neg_each_get_oneg new_signal_def if_then_def then_m_def
      get_ireg_ok get_oreg_ok)

lemma MachXO_xdr2:
  assumes "pin_ok p" and "pin_xdr p = 2"
  shows "MachXO_get_xdr_buffer m p i_invert o_invert =
    Inr ((if dir_i p then Some (Sig (xdr_i p)) else None,
          if dir_o p then Some (Sig (xdr_o p)) else None,
          if dir_oe p then Some (Sig (MachXO_xdr_t p)) else None),
         m\<lparr>signals := signals m
          @ (if dir_i p \<and> i_invert
             then map (\<lambda>z. Like z (negated True z)) [pin_i0 p, pin_i1 p] else [])
          @ (if dir_o p \<and> o_invert
             then map (\<lambda>a. Like a (negated True a)) [pin_o0 p, pin_o1 p] else [])
          @ (if dir_i p then [New (xdr_i p)] else [])
          @ (if dir_o p then [New (xdr_o p)] else [])
          @ (if dir_oe p then [New (MachXO_xdr_t p)] else []),
           comb := comb m
          @ (if dir_i p \<and> i_invert
             then map (\<lambda>z. Assign (Sig z) (Not (Sig (negated True z)))) [pin_i0 p, pin_i1 p] else [])
          @ (if dir_o p \<and> o_invert
             then map (\<lambda>a. Assign (Sig (negated True a)) (Not (Sig a))) [pin_o0 p, pin_o1 p] else []),
           submodules := submodules m
          @ (if dir_i p
             then MachXO_get_iddr_instances (Sig (pin_i_clk p)) (Sig (xdr_i p)) (Sig (negated
               i_invert (pin_i0 p))) (Sig (negated i_invert (pin_i1 p)))
             else [])
          @ (if dir_o p
             then MachXO_get_oddr_instances (Sig (pin_o_clk p)) (Sig (negated o_invert (pin_o0
               p))) (Sig (negated o_invert (pin_o1 p))) (Sig (xdr_o p))
             else [])
          @ (if dir_oe p
             then get_oreg_instances (Sig (pin_o_clk p)) (Not (Sig (pin_oe p))) (Sig
               (MachXO_xdr_t p))
             else [])\<rparr>)"
  using assms
  unfolding MachXO_get_xdr_buffer_def dir_i_def [symmetric] dir_o_def [symmetric]
    dir_oe_def [symmetric] xdr_i_def [symmetric] xdr_o_def [symmetric]
    MachXO_xdr_t_def [symmetric]
  by (simp add: MachXO_i_streams_def MachXO_o_streams_def pin_ok_def Let_def split_def
      neg_each_get_ineg neg_each_get_oneg new_signal_def if_then_def then_m_def
      MachXO_get_iddr_ok MachXO_get_oddr_ok get_oreg_ok)

subsection \<open>I/O buffers: unsupported gearing\<close>

text \<open>
  Claim C2, as amended. On ECP5, for every pin whose gearing is not one of 0, 1, 2, 4, 7,
  \<open>_get_xdr_buffer\<close> fails with a \<open>ValueError\<close> whose message holds the gearing and the
  pin's name. On MachXO2/MachXO3L, for every pin whose gearing is not one of 0, 1, 2,
  \<open>_get_xdr_buffer\<close> fails on \<open>assert False\<close>: an \<open>AssertionError\<close> that carries no message.
\<close>

theorem unsupported_gearing_fails:
  "(pin_xdr p \<notin> {0, 1, 2, 4, 7} \<longrightarrow>
      ECP5_get_xdr_buffer m p i_invert o_invert
        = Inl (ValueError (''Invalid gearing '' @ str_nat (pin_xdr p) @ '' for pin '' @ pin_name p
                           @ '', must be one of, 0, 1, 2, 4, or 7'')))
   \<and> (pin_xdr p \<notin> {0, 1, 2} \<longrightarrow>
      MachXO_get_xdr_buffer m p i_invert o_invert = Inl AssertionError)"
  by (simp add: ECP5_get_xdr_buffer_def MachXO_get_xdr_buffer_def Let_def split_def)

lemma str_nat_3: "str_nat 3 = ''3''"
  by code_simp

theorem unsupported_gearing_fails_witness:
  "pin_xdr (example_pin ''i'' 1 3) \<notin> {0, 1, 2, 4, 7}
   \<and> ECP5_get_xdr_buffer Module (example_pin ''i'' 1 3) False False
       = Inl (ValueError ''Invalid gearing 3 for pin x, must be one of, 0, 1, 2, 4, or 7'')
   \<and> MachXO_get_xdr_buffer Module (example_pin ''i'' 1 3) False False = Inl AssertionError"
  using unsupported_gearing_fails [of "example_pin ''i'' 1 3" Module False False]
  by (simp add: example_pin_def str_nat_3)

text \<open>
  Claim C2 as stated fails on MachXO2/MachXO3L: for the pin \<open>x\<close> with gearing 3 the error
  is the bare \<open>AssertionError\<close>, which names neither the pin nor the gearing.
\<close>

theorem MachXO_unsupported_gearing_counterexample:
  "pin_xdr (example_pin ''i'' 1 3) = 3
   \<and> pin_name (example_pin ''i'' 1 3) = ''x''
   \<and> MachXO_get_xdr_buffer Module (example_pin ''i'' 1 3) False False = Inl AssertionError"
  by (simp add: example_pin_def MachXO_get_xdr_buffer_def Let_def split_def MachXO_i_streams_def)

subsection \<open>I/O buffers: the enable path\<close>

lemma dir_oe_iff: "dir_oe p \<longleftrightarrow> pin_dir p = ''oe'' \<or> pin_dir p = ''io''"
  by (auto simp: dir_oe_def)

lemma ECP5_oereg_member:
  "b < len q \<Longrightarrow>
   (None, Instance ''OFS1P3DX''
      [(''i_SCLK'', Conn clk), (''i_SP'', Conn (Const 1)), (''i_CD'', Conn (Const 0)),
       (''i_D'', Conn oe), (''o_Q'', Conn (Slice q b))])
     \<in> set (ECP5_get_oereg_instances clk oe q)"
  by (simp add: ECP5_get_oereg_instances_def image_iff)

lemma oreg_member:
  "b < len q \<Longrightarrow>
   (None, Instance ''OFS1P3DX''
      [(''i_SCLK'', Conn clk), (''i_SP'', Conn (Const 1)), (''i_CD'', Conn (Const 0)),
       (''i_D'', Conn (Slice d b)), (''o_Q'', Conn (Slice q b))])
     \<in> set (get_oreg_instances clk d q)"
  by (simp add: get_oreg_instances_def image_iff)

text \<open>
  Claim C3. For a pin with an enable path (direction \<open>oe\<close> or \<open>io\<close>): at gearing 0 the
  \<open>t\<close> returned by \<open>_get_xdr_buffer\<close> is the inverted enable itself (replicated to the
  pin's width on ECP5) and no instance is added; at every supported gearing from 1 up
  (1, 2, 4, 7 on ECP5; 1, 2 on MachXO2/MachXO3L, which supports no other) \<open>t\<close> is a new
  signal, each bit of which is the output \<open>Q\<close> of an \<open>OFS1P3DX\<close> register whose data input
  is the inverted enable and whose clock is the pin's output clock.
\<close>

theorem tristate_enable_path:
  assumes "pin_ok p" and "pin_dir p = ''oe'' \<or> pin_dir p = ''io''"
  shows
   "(pin_xdr p = 0 \<longrightarrow>
       (\<exists>ri ro m'. ECP5_get_xdr_buffer m p i_invert o_invert
            = Inr ((ri, ro, Some (Not (Replicate (Sig (pin_oe p)) (pin_width p)))), m')
          \<and> submodules m' = submodules m)
     \<and> (\<exists>ri ro m'. MachXO_get_xdr_buffer m p i_invert o_invert
            = Inr ((ri, ro, Some (Not (Sig (pin_oe p)))), m')
          \<and> submodules m' = submodules m))
    \<and> (pin_xdr p \<in> {1, 2, 4, 7} \<longrightarrow>
       (\<exists>ri ro m'. ECP5_get_xdr_buffer m p i_invert o_invert
            = Inr ((ri, ro, Some (Sig (ECP5_xdr_t p))), m')
          \<and> (\<forall>b < pin_width p.
                (None, Instance ''OFS1P3DX''
                   [(''i_SCLK'', Conn (Sig (pin_o_clk p))), (''i_SP'', Conn (Const 1)),
                    (''i_CD'', Conn (Const 0)), (''i_D'', Conn (Not (Sig (pin_oe p)))),
                    (''o_Q'', Conn (Slice (Sig (ECP5_xdr_t p)) b))])
                  \<in> set (submodules m'))))
    \<and> (pin_xdr p \<in> {1, 2} \<longrightarrow>
       (\<exists>ri ro m'. MachXO_get_xdr_buffer m p i_invert o_invert
            = Inr ((ri, ro, Some (Sig (MachXO_xdr_t p))), m')
          \<and> (None, Instance ''OFS1P3DX''
                [(''i_SCLK'', Conn (Sig (pin_o_clk p))), (''i_SP'', Conn (Const 1)),
                 (''i_CD'', Conn (Const 0)), (''i_D'', Conn (Slice (Not (Sig (pin_oe p))) 0)),
                 (''o_Q'', Conn (Slice (Sig (MachXO_xdr_t p)) 0))])
               \<in> set (submodules m')))"
proof -
  have oe: "dir_oe p" using assms(2) by (simp add: dir_oe_iff)
  have g0: "pin_xdr p = 0 \<Longrightarrow> ?thesis"
    using oe by (simp add: ECP5_xdr0 [OF assms(1)] MachXO_xdr0 [OF assms(1)])
  have e: "\<And>b. b < pin_width p \<Longrightarrow>
      (None, Instance ''OFS1P3DX''
         [(''i_SCLK'', Conn (Sig (pin_o_clk p))), (''i_SP'', Conn (Const 1)),
          (''i_CD'', Conn (Const 0)), (''i_D'', Conn (Not (Sig (pin_oe p)))),
          (''o_Q'', Conn (Slice (Sig (ECP5_xdr_t p)) b))])
        \<in> set (ECP5_get_oereg_instances (Sig (pin_o_clk p)) (Not (Sig (pin_oe p)))
                 (Sig (ECP5_xdr_t p)))"
    by (rule ECP5_oereg_member) simp
  have x: "(None, Instance ''OFS1P3DX''
         [(''i_SCLK'', Conn (Sig (pin_o_clk p))), (''i_SP'', Conn (Const 1)),
          (''i_CD'', Conn (Const 0)), (''i_D'', Conn (Slice (Not (Sig (pin_oe p))) 0)),
          (''o_Q'', Conn (Slice (Sig (MachXO_xdr_t p)) 0))])
        \<in> set (get_oreg_instances (Sig (pin_o_clk p)) (Not (Sig (pin_oe p)))
                 (Sig (MachXO_xdr_t p)))"
    by (rule oreg_member) simp
  have g1: "pin_xdr p = 1 \<Longrightarrow> ?thesis"
    using oe e x by (simp add: ECP5_xdr1 [OF assms(1)] MachXO_xdr1 [OF assms(1)])
  have g2: "pin_xdr p = 2 \<Longrightarrow> ?thesis"
    using oe e x by (simp add: ECP5_xdr2 [OF assms(1)] MachXO_xdr2 [OF assms(1)])
  have g4: "pin_xdr p = 4 \<Longrightarrow> ?thesis"
    using oe e by (simp add: ECP5_xdr4 [OF assms(1)])
  have g7: "pin_xdr p = 7 \<Longrightarrow> ?thesis"
    using oe e by (simp add: ECP5_xdr7 [OF assms(1)])
  show ?thesis
  proof (cases "pin_xdr p \<in> {0, 1, 2, 4, 7}")
    case True
    then show ?thesis using g0 g1 g2 g4 g7 by blast
  next
    case False
    then show ?thesis by simp
  qed
qed

lemma pin_ok_example [simp]: "pin_ok (example_pin dr wd xd)"
  by (simp add: pin_ok_def example_pin_def)

theorem tristate_enable_path_witness:
  "pin_ok (example_pin ''io'' 2 1)
   \<and> pin_dir (example_pin ''io'' 2 1) = ''io''
   \<and> pin_xdr (example_pin ''io'' 2 1) \<in> {1, 2, 4, 7}
   \<and> (\<exists>ri ro m'. ECP5_get_xdr_buffer Module (example_pin ''io'' 2 1) False False
            = Inr ((ri, ro, Some (Sig (Signal 2 ''x_xdr_t''))), m')
          \<and> (\<forall>b < 2.
                (None, Instance ''OFS1P3DX''
                   [(''i_SCLK'', Conn (Sig (Signal 1 ''x__o_clk''))), (''i_SP'', Conn (Const 1)),
                    (''i_CD'', Conn (Const 0)), (''i_D'', Conn (Not (Sig (Signal 1 ''x__oe'')))),
                    (''o_Q'', Conn (Slice (Sig (Signal 2 ''x_xdr_t'')) b))])
                  \<in> set (submodules m')))
   \<and> (\<exists>ri ro m'. MachXO_get_xdr_buffer Module (example_pin ''io'' 2 1) False False
            = Inr ((ri, ro, Some (Sig (Signal 1 ''x_xdr_t''))), m')
          \<and> (None, Instance ''OFS1P3DX''
                [(''i_SCLK'', Conn (Sig (Signal 1 ''x__o_clk''))), (''i_SP'', Conn (Const 1)),
                 (''i_CD'', Conn (Const 0)),
                 (''i_D'', Conn (Slice (Not (Sig (Signal 1 ''x__oe''))) 0)),
                 (''o_Q'', Conn (Slice (Sig (Signal 1 ''x_xdr_t'')) 0))])
               \<in> set (submodules m'))"
proof -
  have d: "pin_dir (example_pin ''io'' 2 1) = ''oe'' \<or> pin_dir (example_pin ''io'' 2 1) = ''io''"
    by (simp add: example_pin_def)
  have f: "pin_xdr (example_pin ''io'' 2 1) = 1" "pin_width (example_pin ''io'' 2 1) = 2"
    "pin_o_clk (example_pin ''io'' 2 1) = Signal 1 ''x__o_clk''"
    "pin_oe (example_pin ''io'' 2 1) = Signal 1 ''x__oe''"
    "ECP5_xdr_t (example_pin ''io'' 2 1) = Signal 2 ''x_xdr_t''"
    "MachXO_xdr_t (example_pin ''io'' 2 1) = Signal 1 ''x_xdr_t''"
    "pin_dir (example_pin ''io'' 2 1) = ''io''"
    by (simp_all add: example_pin_def ECP5_xdr_t_def MachXO_xdr_t_def)
  from tristate_enable_path [OF pin_ok_example d, of Module False False]
  show ?thesis unfolding f by simp
qed

subsection \<open>I/O buffers: inversion\<close>

lemma connections_append [simp]: "connections (xs @ ys) = connections xs @ connections ys"
  by (simp add: connections_def)

lemma connections_Nil [simp]: "connections [] = []"
  by (simp add: connections_def)

lemma connections_map:
  "v \<in> set (connections (map f [0..<n]))
     \<longleftrightarrow> (\<exists>j<n. \<exists>ka \<in> set (prim_args (snd (f j))). v \<in> set (arg_conns (snd ka)))"
  by (auto simp: connections_def)

lemma connections_get_ireg_instances:
  assumes "b < len q"
  shows "Slice d b \<in> set (connections (get_ireg_instances clk d q))"
    and "Slice q b \<in> set (connections (get_ireg_instances clk d q))"
  using assms by (auto simp: get_ireg_instances_def connections_map intro!: exI [of _ b])

lemma connections_get_oreg_instances:
  assumes "b < len q"
  shows "Slice d b \<in> set (connections (get_oreg_instances clk d q))"
    and "Slice q b \<in> set (connections (get_oreg_instances clk d q))"
  using assms by (auto simp: get_oreg_instances_def connections_map intro!: exI [of _ b])

lemma connections_ECP5_get_oereg_instances:
  assumes "b < len q"
  shows "Slice q b \<in> set (connections (ECP5_get_oereg_instances clk oe q))"
  using assms by (auto simp: ECP5_get_oereg_instances_def connections_map intro!: exI [of _ b])

lemma connections_ECP5_get_iddr_instances:
  assumes "b < len d"
  shows "Slice d b \<in> set (connections (ECP5_get_iddr_instances sclk d q0 q1))"
    and "Slice q0 b \<in> set (connections (ECP5_get_iddr_instances sclk d q0 q1))"
    and "Slice q1 b \<in> set (connections (ECP5_get_iddr_instances sclk d q0 q1))"
  using assms by (auto simp: ECP5_get_iddr_instances_def connections_map intro!: exI [of _ b])

lemma connections_ECP5_get_iddrx2_instances:
  assumes "b < len d"
  shows "Slice d b \<in> set (connections (ECP5_get_iddrx2_instances sclk eclk d q0 q1 q2 q3))"
    and "Slice q0 b \<in> set (connections (ECP5_get_iddrx2_instances sclk eclk d q0 q1 q2 q3))"
    and "Slice q1 b \<in> set (connections (ECP5_get_iddrx2_instances sclk eclk d q0 q1 q2 q3))"
    and "Slice q2 b \<in> set (connections (ECP5_get_iddrx2_instances sclk eclk d q0 q1 q2 q3))"
    and "Slice q3 b \<in> set (connections (ECP5_get_iddrx2_instances sclk eclk d q0 q1 q2 q3))"
  using assms by (auto simp: ECP5_get_iddrx2_instances_def connections_map intro!: exI [of _ b])

lemma connections_ECP5_get_iddr71b_instances:
  assumes "b < len d"
  shows "Slice d b \<in> set (connections (ECP5_get_iddr71b_instances sclk eclk d q0 q1 q2 q3 q4 q5 q6))"
    and "Slice q0 b \<in> set (connections (ECP5_get_iddr71b_instances sclk eclk d q0 q1 q2 q3 q4 q5 q6))"
    and "Slice q1 b \<in> set (connections (ECP5_get_iddr71b_instances sclk eclk d q0 q1 q2 q3 q4 q5 q6))"
    and "Slice q2 b \<in> set (connections (ECP5_get_iddr71b_instances sclk eclk d q0 q1 q2 q3 q4 q5 q6))"
    and "Slice q3 b \<in> set (connections (ECP5_get_iddr71b_instances sclk eclk d q0 q1 q2 q3 q4 q5 q6))"
    and "Slice q4 b \<in> set (connections (ECP5_get_iddr71b_instances sclk eclk d q0 q1 q2 q3 q4 q5 q6))"
    and "Slice q5 b \<in> set (connections (ECP5_get_iddr71b_instances sclk eclk d q0 q1 q2 q3 q4 q5 q6))"
    and "Slice q6 b \<in> set (connections (ECP5_get_iddr71b_instances sclk eclk d q0 q1 q2 q3 q4 q5 q6))"
  using assms by (auto simp: ECP5_get_iddr71b_instances_def connections_map intro!: exI [of _ b])

lemma connections_ECP5_get_oddr_instances:
  assumes "b < len q"
  shows "Slice d0 b \<in> set (connections (ECP5_get_oddr_instances sclk d0 d1 q))"
    and "Slice d1 b \<in> set (connections (ECP5_get_oddr_instances sclk d0 d1 q))"
    and "Slice q b \<in> set (connections (ECP5_get_oddr_instances sclk d0 d1 q))"
  using assms by (auto simp: ECP5_get_oddr_instances_def connections_map intro!: exI [of _ b])

lemma connections_ECP5_get_oddrx2_instances:
  assumes "b < len q"
  shows "Slice d0 b \<in> set (connections (ECP5_get_oddrx2_instances sclk eclk d0 d1 d2 d3 q))"
    and "Slice d1 b \<in> set (connections (ECP5_get_oddrx2_instances sclk eclk d0 d1 d2 d3 q))"
    and "Slice d2 b \<in> set (connections (ECP5_get_oddrx2_instances sclk eclk d0 d1 d2 d3 q))"
    and "Slice d3 b \<in> set (connections (ECP5_get_oddrx2_instances sclk eclk d0 d1 d2 d3 q))"
    and "Slice q b \<in> set (connections (ECP5_get_oddrx2_instances sclk eclk d0 d1 d2 d3 q))"
  using assms by (auto simp: ECP5_get_oddrx2_instances_def connections_map intro!: exI [of _ b])

lemma connections_ECP5_get_oddr71b_instances:
  assumes "b < len q"
  shows "Slice d0 b \<in> set (connections (ECP5_get_oddr71b_instances sclk eclk d0 d1 d2 d3 d4 d5 d6 q))"
    and "Slice d1 b \<in> set (connections (ECP5_get_oddr71b_instances sclk eclk d0 d1 d2 d3 d4 d5 d6 q))"
    and "Slice d2 b \<in> set (connections (ECP5_get_oddr71b_instances sclk eclk d0 d1 d2 d3 d4 d5 d6 q))"
    and "Slice d3 b \<in> set (connections (ECP5_get_oddr71b_instances sclk eclk d0 d1 d2 d3 d4 d5 d6 q))"
    and "Slice d4 b \<in> set (connections (ECP5_get_oddr71b_instances sclk eclk d0 d1 d2 d3 d4 d5 d6 q))"
    and "Slice d5 b \<in> set (connections (ECP5_get_oddr71b_instances sclk eclk d0 d1 d2 d3 d4 d5 d6 q))"
    and "Slice d6 b \<in> set (connections (ECP5_get_oddr71b_instances sclk eclk d0 d1 d2 d3 d4 d5 d6 q))"
    and "Slice q b \<in> set (connections (ECP5_get_oddr71b_instances sclk eclk d0 d1 d2 d3 d4 d5 d6 q))"
  using assms by (auto simp: ECP5_get_oddr71b_instances_def connections_map intro!: exI [of _ b])

lemma connections_MachXO_get_iddr_instances:
  assumes "b < len d"
  shows "Slice d b \<in> set (connections (MachXO_get_iddr_instances sclk d q0 q1))"
    and "Slice q0 b \<in> set (connections (MachXO_get_iddr_instances sclk d q0 q1))"
    and "Slice q1 b \<in> set (connections (MachXO_get_iddr_instances sclk d q0 q1))"
  using assms by (auto simp: MachXO_get_iddr_instances_def connections_map intro!: exI [of _ b])

lemma connections_MachXO_get_oddr_instances:
  assumes "b < len q"
  shows "Slice d0 b \<in> set (connections (MachXO_get_oddr_instances sclk d0 d1 q))"
    and "Slice d1 b \<in> set (connections (MachXO_get_oddr_instances sclk d0 d1 q))"
    and "Slice q b \<in> set (connections (MachXO_get_oddr_instances sclk d0 d1 q))"
  using assms by (auto simp: MachXO_get_oddr_instances_def connections_map intro!: exI [of _ b])


lemmas xdr_connections =
  connections_get_ireg_instances connections_get_oreg_instances
  connections_ECP5_get_iddr_instances connections_ECP5_get_iddrx2_instances
  connections_ECP5_get_iddr71b_instances connections_ECP5_get_oddr_instances
  connections_ECP5_get_oddrx2_instances connections_ECP5_get_oddr71b_instances
  connections_MachXO_get_iddr_instances connections_MachXO_get_oddr_instances

lemma pin_ok_widths:
  assumes "pin_ok p"
  shows "signal_width (pin_i p) = pin_width p" "signal_width (pin_i0 p) = pin_width p"
    "signal_width (pin_i1 p) = pin_width p" "signal_width (pin_i2 p) = pin_width p"
    "signal_width (pin_i3 p) = pin_width p" "signal_width (pin_i4 p) = pin_width p"
    "signal_width (pin_i5 p) = pin_width p" "signal_width (pin_i6 p) = pin_width p"
    "signal_width (pin_o p) = pin_width p" "signal_width (pin_o0 p) = pin_width p"
    "signal_width (pin_o1 p) = pin_width p" "signal_width (pin_o2 p) = pin_width p"
    "signal_width (pin_o3 p) = pin_width p" "signal_width (pin_o4 p) = pin_width p"
    "signal_width (pin_o5 p) = pin_width p" "signal_width (pin_o6 p) = pin_width p"
    "signal_width (pin_oe p) = 1"
  using assms by (simp_all add: pin_ok_def)

lemma negated_True: "negated True z = Signal_like z ''_n''"
  by (simp add: negated_def)

lemma ECP5_inversion:
  assumes "pin_ok p"
  shows "(pin_xdr p \<in> {0, 1, 2, 4, 7} \<longrightarrow>
      (\<exists>ri ro rt m'. ECP5_get_xdr_buffer m p i_invert o_invert = Inr ((ri, ro, rt), m')
         \<and> aux_signals m' = aux_signals m
              @ (if dir_i p \<and> i_invert
                 then map (\<lambda>z. Like z (Signal_like z ''_n'')) (ECP5_i_streams p) else [])
              @ (if dir_o p \<and> o_invert
                 then map (\<lambda>a. Like a (Signal_like a ''_n'')) (ECP5_o_streams p) else [])
         \<and> comb m' = comb m
              @ (if dir_i p \<and> i_invert
                 then map (\<lambda>z. Assign (Sig z) (Not (Sig (Signal_like z ''_n'')))) (ECP5_i_streams p)
                 else [])
              @ (if dir_o p \<and> o_invert
                 then map (\<lambda>a. Assign (Sig (Signal_like a ''_n'')) (Not (Sig a))) (ECP5_o_streams p)
                 else [])
         \<and> length (ECP5_i_streams p) = (if pin_xdr p < 2 then 1 else pin_xdr p)
         \<and> length (ECP5_o_streams p) = (if pin_xdr p < 2 then 1 else pin_xdr p)
         \<and> (pin_xdr p = 0 \<and> dir_i p \<longrightarrow> ri = Some (Sig (negated i_invert (pin_i p))))
         \<and> (pin_xdr p = 0 \<and> dir_o p \<longrightarrow> ro = Some (Sig (negated o_invert (pin_o p))))
         \<and> (pin_xdr p \<noteq> 0 \<and> dir_i p \<longrightarrow>
              (\<forall>z \<in> set (ECP5_i_streams p). \<forall>b < pin_width p.
                 Slice (Sig (negated i_invert z)) b \<in> set (connections (submodules m'))))
         \<and> (pin_xdr p \<noteq> 0 \<and> dir_o p \<longrightarrow>
              (\<forall>a \<in> set (ECP5_o_streams p). \<forall>b < pin_width p.
                 Slice (Sig (negated o_invert a)) b \<in> set (connections (submodules m'))))))"
proof -
  note w = pin_ok_widths [OF assms]
  have g: "pin_xdr p = 0 \<Longrightarrow> ?thesis" "pin_xdr p = 1 \<Longrightarrow> ?thesis" "pin_xdr p = 2 \<Longrightarrow> ?thesis" "pin_xdr p = 4 \<Longrightarrow> ?thesis" "pin_xdr p = 7 \<Longrightarrow> ?thesis"
    by (simp_all add: ECP5_xdr0 [OF assms] ECP5_xdr1 [OF assms] ECP5_xdr2 [OF assms] ECP5_xdr4 [OF assms] ECP5_xdr7 [OF assms]
        aux_signals_def ECP5_i_streams_def ECP5_o_streams_def xdr_connections negated_True w)
  show ?thesis
  proof (cases "pin_xdr p \<in> {0, 1, 2, 4, 7}")
    case True
    then show ?thesis using g by blast
  next
    case False
    then show ?thesis by simp
  qed
qed

lemma MachXO_inversion:
  assumes "pin_ok p"
  shows "(pin_xdr p \<in> {0, 1, 2} \<longrightarrow>
      (\<exists>ri ro rt m'. MachXO_get_xdr_buffer m p i_invert o_invert = Inr ((ri, ro, rt), m')
         \<and> aux_signals m' = aux_signals m
              @ (if dir_i p \<and> i_invert
                 then map (\<lambda>z. Like z (Signal_like z ''_n'')) (MachXO_i_streams p) else [])
              @ (if dir_o p \<and> o_invert
                 then map (\<lambda>a. Like a (Signal_like a ''_n'')) (MachXO_o_streams p) else [])
         \<and> comb m' = comb m
              @ (if dir_i p \<and> i_invert
                 then map (\<lambda>z. Assign (Sig z) (Not (Sig (Signal_like z ''_n'')))) (MachXO_i_streams p)
                 else [])
              @ (if dir_o p \<and> o_invert
                 then map (\<lambda>a. Assign (Sig (Signal_like a ''_n'')) (Not (Sig a))) (MachXO_o_streams p)
                 else [])
         \<and> length (MachXO_i_streams p) = (if pin_xdr p < 2 then 1 else pin_xdr p)
         \<and> length (MachXO_o_streams p) = (if pin_xdr p < 2 then 1 else pin_xdr p)
         \<and> (pin_xdr p = 0 \<and> dir_i p \<longrightarrow> ri = Some (Sig (negated i_invert (pin_i p))))
         \<and> (pin_xdr p = 0 \<and> dir_o p \<longrightarrow> ro = Some (Sig (negated o_invert (pin_o p))))
         \<and> (pin_xdr p \<noteq> 0 \<and> dir_i p \<longrightarrow>
              (\<forall>z \<in> set (MachXO_i_streams p). \<forall>b < pin_width p.
                 Slice (Sig (negated i_invert z)) b \<in> set (connections (submodules m'))))
         \<and> (pin_xdr p \<noteq> 0 \<and> dir_o p \<longrightarrow>
              (\<forall>a \<in> set (MachXO_o_streams p). \<forall>b < pin_width p.
                 Slice (Sig (negated o_invert a)) b \<in> set (connections (submodules m'))))))"
proof -
  note w = pin_ok_widths [OF assms]
  have g: "pin_xdr p = 0 \<Longrightarrow> ?thesis" "pin_xdr p = 1 \<Longrightarrow> ?thesis" "pin_xdr p = 2 \<Longrightarrow> ?thesis"
    by (simp_all add: MachXO_xdr0 [OF assms] MachXO_xdr1 [OF assms] MachXO_xdr2 [OF assms]
        aux_signals_def MachXO_i_streams_def MachXO_o_streams_def xdr_connections negated_True w)
  show ?thesis
  proof (cases "pin_xdr p \<in> {0, 1, 2}")
    case True
    then show ?thesis using g by blast
  next
    case False
    then show ?thesis by simp
  qed
qed

text \<open>
  Claim C4, as amended. At a supported gearing, an inversion flag that is set and whose
  direction the pin has makes \<open>_get_xdr_buffer\<close> introduce one auxiliary signal (a
  \<open>Signal.like\<close> copy, suffix \<open>_n\<close>) and one negation for every data stream of that
  direction: one stream at gearing 0 and 1, as many streams as the gearing above. A flag
  that is unset, or whose direction the pin does not have, introduces none. The signal
  handed on is the auxiliary one when the flag is set and the pin's own signal when it
  is not: at gearing 0 it is returned, above it is connected bit by bit to the gearing
  instances. The same holds on MachXO2/MachXO3L at its gearings 0, 1, 2.
\<close>

theorem inversion_per_stream:
  assumes "pin_ok p"
  shows "(pin_xdr p \<in> {0, 1, 2, 4, 7} \<longrightarrow>
      (\<exists>ri ro rt m'. ECP5_get_xdr_buffer m p i_invert o_invert = Inr ((ri, ro, rt), m')
         \<and> aux_signals m' = aux_signals m
              @ (if dir_i p \<and> i_invert
                 then map (\<lambda>z. Like z (Signal_like z ''_n'')) (ECP5_i_streams p) else [])
              @ (if dir_o p \<and> o_invert
                 then map (\<lambda>a. Like a (Signal_like a ''_n'')) (ECP5_o_streams p) else [])
         \<and> comb m' = comb m
              @ (if dir_i p \<and> i_invert
                 then map (\<lambda>z. Assign (Sig z) (Not (Sig (Signal_like z ''_n'')))) (ECP5_i_streams p)
                 else [])
              @ (if dir_o p \<and> o_invert
                 then map (\<lambda>a. Assign (Sig (Signal_like a ''_n'')) (Not (Sig a))) (ECP5_o_streams p)
                 else [])
         \<and> length (ECP5_i_streams p) = (if pin_xdr p < 2 then 1 else pin_xdr p)
         \<and> length (ECP5_o_streams p) = (if pin_xdr p < 2 then 1 else pin_xdr p)
         \<and> (pin_xdr p = 0 \<and> dir_i p \<longrightarrow> ri = Some (Sig (negated i_invert (pin_i p))))
         \<and> (pin_xdr p = 0 \<and> dir_o p \<longrightarrow> ro = Some (Sig (negated o_invert (pin_o p))))
         \<and> (pin_xdr p \<noteq> 0 \<and> dir_i p \<longrightarrow>
              (\<forall>z \<in> set (ECP5_i_streams p). \<forall>b < pin_width p.
                 Slice (Sig (negated i_invert z)) b \<in> set (connections (submodules m'))))
         \<and> (pin_xdr p \<noteq> 0 \<and> dir_o p \<longrightarrow>
              (\<forall>a \<in> set (ECP5_o_streams p). \<forall>b < pin_width p.
                 Slice (Sig (negated o_invert a)) b \<in> set (connections (submodules m'))))))
   \<and> (pin_xdr p \<in> {0, 1, 2} \<longrightarrow>
      (\<exists>ri ro rt m'. MachXO_get_xdr_buffer m p i_invert o_invert = Inr ((ri, ro, rt), m')
         \<and> aux_signals m' = aux_signals m
              @ (if dir_i p \<and> i_invert
                 then map (\<lambda>z. Like z (Signal_like z ''_n'')) (MachXO_i_streams p) else [])
              @ (if dir_o p \<and> o_invert
                 then map (\<lambda>a. Like a (Signal_like a ''_n'')) (MachXO_o_streams p) else [])
         \<and> comb m' = comb m
              @ (if dir_i p \<and> i_invert
                 then map (\<lambda>z. Assign (Sig z) (Not (Sig (Signal_like z ''_n'')))) (MachXO_i_streams p)
                 else [])
              @ (if dir_o p \<and> o_invert
                 then map (\<lambda>a. Assign (Sig (Signal_like a ''_n'')) (Not (Sig a))) (MachXO_o_streams p)
                 else [])
         \<and> length (MachXO_i_streams p) = (if pin_xdr p < 2 then 1 else pin_xdr p)
         \<and> length (MachXO_o_streams p) = (if pin_xdr p < 2 then 1 else pin_xdr p)
         \<and> (pin_xdr p = 0 \<and> dir_i p \<longrightarrow> ri = Some (Sig (negated i_invert (pin_i p))))
         \<and> (pin_xdr p = 0 \<and> dir_o p \<longrightarrow> ro = Some (Sig (negated o_invert (pin_o p))))
         \<and> (pin_xdr p \<noteq> 0 \<and> dir_i p \<longrightarrow>
              (\<forall>z \<in> set (MachXO_i_streams p). \<forall>b < pin_width p.
                 Slice (Sig (negated i_invert z)) b \<in> set (connections (submodules m'))))
         \<and> (pin_xdr p \<noteq> 0 \<and> dir_o p \<longrightarrow>
              (\<forall>a \<in> set (MachXO_o_streams p). \<forall>b < pin_width p.
                 Slice (Sig (negated o_invert a)) b \<in> set (connections (submodules m'))))))"
  using ECP5_inversion [OF assms] MachXO_inversion [OF assms] by (rule conjI)

theorem inversion_per_stream_witness:
  "pin_ok (example_pin ''io'' 2 2)
   \<and> pin_xdr (example_pin ''io'' 2 2) \<in> {0, 1, 2, 4, 7}
   \<and> (\<exists>ri ro rt m'. ECP5_get_xdr_buffer Module (example_pin ''io'' 2 2) True False
          = Inr ((ri, ro, rt), m')
        \<and> aux_signals m' =
            [Like (Signal 2 ''x__i0'') (Signal 2 ''x__i0_n''),
             Like (Signal 2 ''x__i1'') (Signal 2 ''x__i1_n'')]
        \<and> comb m' =
            [Assign (Sig (Signal 2 ''x__i0'')) (Not (Sig (Signal 2 ''x__i0_n''))),
             Assign (Sig (Signal 2 ''x__i1'')) (Not (Sig (Signal 2 ''x__i1_n'')))])"
proof -
  have f: "pin_xdr (example_pin ''io'' 2 2) = 2" "dir_i (example_pin ''io'' 2 2)"
    "dir_o (example_pin ''io'' 2 2)"
    "ECP5_i_streams (example_pin ''io'' 2 2) = [Signal 2 ''x__i0'', Signal 2 ''x__i1'']"
    "aux_signals Module = []" "comb Module = []"
    by (simp_all add: example_pin_def dir_i_def dir_o_def ECP5_i_streams_def aux_signals_def
        Module_def)
  from inversion_per_stream [OF pin_ok_example, of "''io''" 2 2 Module True False]
  have "\<exists>ri ro rt m'. ECP5_get_xdr_buffer Module (example_pin ''io'' 2 2) True False
          = Inr ((ri, ro, rt), m')
        \<and> aux_signals m' =
            [Like (Signal 2 ''x__i0'') (Signal 2 ''x__i0_n''),
             Like (Signal 2 ''x__i1'') (Signal 2 ''x__i1_n'')]
        \<and> comb m' =
            [Assign (Sig (Signal 2 ''x__i0'')) (Not (Sig (Signal 2 ''x__i0_n''))),
             Assign (Sig (Signal 2 ''x__i1'')) (Not (Sig (Signal 2 ''x__i1_n'')))]"
    by (simp add: f) blast
  then show ?thesis by (simp add: f)
qed

text \<open>
  Claim C4 as stated fails at gearing 2: for the input pin \<open>x\<close> with the input flag set,
  the one affected direction gets two auxiliary signals and two negations.
\<close>

theorem inversion_two_streams_counterexample:
  "(case ECP5_get_xdr_buffer Module (example_pin ''i'' 2 2) True False of
      Inl e \<Rightarrow> None
    | Inr (r, m') \<Rightarrow> Some (length (aux_signals m'), length (comb m'))) = Some (2, 2)"
proof -
  have x: "pin_xdr (example_pin ''i'' 2 2) = 2" by (simp add: example_pin_def)
  have d: "dir_i (example_pin ''i'' 2 2)" "\<not> dir_o (example_pin ''i'' 2 2)"
    "\<not> dir_oe (example_pin ''i'' 2 2)"
    by (simp_all add: dir_i_def dir_o_def dir_oe_def example_pin_def)
  show ?thesis
    unfolding ECP5_xdr2 [OF pin_ok_example x]
    by (simp add: d aux_signals_def Module_def)
qed

subsection \<open>I/O buffers: one primitive per bit and stage\<close>


lemma index_opt_Some [simp]: "index_opt (Some v) b = index v b"
  by (simp add: index_opt_def)

lemma index_res_Inr [simp]: "index_res (Inr v) b = index v b"
  by (simp add: index_res_def)

lemma whole_Some [simp]: "whole (Some v) = Inr v"
  by (simp add: whole_def)



























lemma example_pin_sel [simp]:
  "pin_name (example_pin dr wd xd) = ''x''"
  "pin_dir (example_pin dr wd xd) = dr"
  "pin_width (example_pin dr wd xd) = wd"
  "pin_xdr (example_pin dr wd xd) = xd"
  by (simp_all add: example_pin_def)




end
